theory Spec2Isabelle
  imports Main "HOL-Library.Word" "HOL-Library.Sublist"
begin

section \<open>Strings and values of the language\<close>

text \<open>
  A JavaScript string is a sequence of 16-bit code units. The text of a string literal of
  the script is ASCII almost everywhere; \<open>lit\<close> turns it into code units.
\<close>

type_synonym jsstring = "16 word list"

definition lit :: "string \<Rightarrow> jsstring" where
  "lit s = map of_char s"

text \<open>
  The values the script handles are the values \<open>JSON.parse\<close> can build, and
  \<open>undefined\<close>, which reading an absent property gives. A number is kept by what the
  script can observe of it: whether it is zero (the only falsy numbers of a JSON text are
  \<open>0\<close> and \<open>-0\<close>) and the text \<open>Number::toString\<close> gives for it. An object is kept
  as its own properties, in the order the engine enumerates them.
\<close>

datatype jsval =
    JUndefined
  | JNull
  | JBool bool
  | JNum bool jsstring
  | JStr jsstring
  | JArr "jsval list"
  | JObj "(jsstring \<times> jsval) list"

datatype jsError =
    TypeError
  | SyntaxError
  | Error jsstring

fun truthy :: "jsval \<Rightarrow> bool" where
  "truthy JUndefined = False"
| "truthy JNull = False"
| "truthy (JBool b) = b"
| "truthy (JNum z t) = (\<not> z)"
| "truthy (JStr s) = (s \<noteq> [])"
| "truthy (JArr xs) = True"
| "truthy (JObj ps) = True"

fun nullish :: "jsval \<Rightarrow> bool" where
  "nullish JUndefined = True"
| "nullish JNull = True"
| "nullish v = False"

text \<open>
  \<open>getProp v k\<close> is the property read \<open>v.k\<close> (or \<open>v[k]\<close>) for the property names this
  script reads, none of which is a property of a built-in prototype: reading from
  \<open>undefined\<close> or \<open>null\<close> throws a TypeError, an object gives its own property or
  \<open>undefined\<close>, every other value gives \<open>undefined\<close>.
\<close>

fun getProp :: "jsval \<Rightarrow> jsstring \<Rightarrow> jsError + jsval" where
  "getProp JUndefined k = Inl TypeError"
| "getProp JNull k = Inl TypeError"
| "getProp (JObj ps) k = Inr (case map_of ps k of None \<Rightarrow> JUndefined | Some v \<Rightarrow> v)"
| "getProp v k = Inr JUndefined"

text \<open>
  \<open>toStr\<close> is the conversion to a string that a template literal and the \<open>innerHTML\<close>
  setter apply. An array is joined with commas, \<open>undefined\<close> and \<open>null\<close> elements giving
  the empty text. An object whose own property \<open>toString\<close> shadows the inherited method
  cannot be converted (no value of a JSON text is callable, and the inherited
  \<open>valueOf\<close>, or an own one, gives no primitive): a TypeError is thrown. Every other
  object gives \<open>[object Object]\<close>.
\<close>

fun toStr :: "jsval \<Rightarrow> jsError + jsstring"
  and joinElems :: "jsval list \<Rightarrow> jsError + jsstring" where
  "toStr JUndefined = Inr (lit ''undefined'')"
| "toStr JNull = Inr (lit ''null'')"
| "toStr (JBool b) = Inr (if b then lit ''true'' else lit ''false'')"
| "toStr (JNum z t) = Inr t"
| "toStr (JStr s) = Inr s"
| "toStr (JArr xs) = joinElems xs"
| "toStr (JObj ps) =
     (if map_of ps (lit ''toString'') \<noteq> None then Inl TypeError
      else Inr (lit ''[object Object]''))"
| "joinElems [] = Inr []"
| "joinElems (x # xs) =
     (case (if nullish x then Inr [] else toStr x) of
        Inl e \<Rightarrow> Inl e
      | Inr s \<Rightarrow>
          (if xs = [] then Inr s
           else (case joinElems xs of
                   Inl e \<Rightarrow> Inl e
                 | Inr r \<Rightarrow> Inr (s @ lit '','' @ r))))"

section \<open>The page: document, caches, console\<close>

text \<open>
  The document is a store of nodes. \<open>document w sel\<close> is what
  \<open>document.querySelector(sel)\<close> does: it throws a SyntaxError for a string that is no
  valid selector, and answers the first matching node, or \<open>null\<close>, otherwise.
  \<open>innerHTML w n\<close> is the inner markup of node \<open>n\<close> and \<open>classList w n\<close> its classes. The store is flat: \<open>innerHTML w n\<close> is the
  markup last assigned to the node, and assigning the markup of one node changes neither
  the markup of another node nor the answer to a selector. The
  module-level variables \<open>domCache\<close>, \<open>escapeCache\<close> and \<open>tempDiv\<close> are fields of the
  same state; a \<open>Map\<close> of the script may hold \<open>null\<close>, so the values of \<open>domCache\<close>
  are optional nodes. \<open>trace\<close> records, in order, the DOM queries issued, the console
  calls and the class additions on the body.
\<close>

type_synonym node = nat

datatype event =
    Query jsstring
  | ConsoleWarn jsstring
  | ConsoleError jsstring jsError
  | ConsoleDebug
  | BodyClassAdd jsstring
  | Uncaught jsError

datatype callback =
    SyncContacts
  | BuildSections jsval

record world =
  domCache :: "jsstring \<rightharpoonup> node option"
  escapeCache :: "jsstring \<rightharpoonup> jsstring"
  tempDiv :: bool
  document :: "jsstring \<Rightarrow> jsError + node option"
  innerHTML :: "node \<Rightarrow> jsstring"
  classList :: "node \<Rightarrow> jsstring list"
  bodyClassList :: "jsstring list"
  frames :: "callback list"
  trace :: "event list"

definition emit :: "event \<Rightarrow> world \<Rightarrow> world" where
  "emit e w = w\<lparr>trace := trace w @ [e]\<rparr>"

subsection \<open>Element resolver\<close>

definition getElement ::
  "jsstring \<Rightarrow> bool \<Rightarrow> world \<Rightarrow> (jsError + node option) \<times> world" where
  "getElement selector useCache w =
     (if useCache \<and> domCache w selector \<noteq> None then (Inr (the (domCache w selector)), w)
      else
        (let w1 = emit (Query selector) w
         in case document w selector of
              Inl e \<Rightarrow> (Inl e, w1)
            | Inr element \<Rightarrow>
                (if useCache \<and> element \<noteq> None
                 then (Inr element, w1\<lparr>domCache := (domCache w1)(selector \<mapsto> element)\<rparr>)
                 else (Inr element, w1))))"

text \<open>The resolver's invariant: no selector is cached with an absent node.\<close>

definition domCacheNonNull :: "world \<Rightarrow> bool" where
  "domCacheNonNull w = (\<forall>sel. domCache w sel \<noteq> Some None)"

subsection \<open>Control flow: exceptions and state\<close>

text \<open>
  A statement of the script either completes with a value or throws, and in both cases
  leaves a changed page behind: \<open>Inl e\<close> is the exception, \<open>Inr x\<close> the value.
\<close>

type_synonym 'a js = "world \<Rightarrow> (jsError + 'a) \<times> world"

definition bindE :: "jsError + 'a \<Rightarrow> ('a \<Rightarrow> jsError + 'b) \<Rightarrow> jsError + 'b" where
  "bindE r f = (case r of Inl e \<Rightarrow> Inl e | Inr x \<Rightarrow> f x)"

definition returnJ :: "'a \<Rightarrow> 'a js" where
  "returnJ x w = (Inr x, w)"

definition liftE :: "jsError + 'a \<Rightarrow> 'a js" where
  "liftE r w = (r, w)"

definition liftS :: "(world \<Rightarrow> 'a \<times> world) \<Rightarrow> 'a js" where
  "liftS m w = (case m w of (x, w1) \<Rightarrow> (Inr x, w1))"

definition bindJ :: "'a js \<Rightarrow> ('a \<Rightarrow> 'b js) \<Rightarrow> 'b js" where
  "bindJ m f w = (case m w of (Inl e, w1) \<Rightarrow> (Inl e, w1) | (Inr x, w1) \<Rightarrow> f x w1)"

definition tryCatch :: "'a js \<Rightarrow> (jsError \<Rightarrow> 'a js) \<Rightarrow> 'a js" where
  "tryCatch m h w = (case m w of (Inl e, w1) \<Rightarrow> h e w1 | (Inr x, w1) \<Rightarrow> (Inr x, w1))"

text \<open>\<open>Array.prototype.map\<close> with a callback that may throw and that changes the page.\<close>

fun mapJ :: "('a \<Rightarrow> 'b js) \<Rightarrow> 'a list \<Rightarrow> 'b list js" where
  "mapJ f [] w = (Inr [], w)"
| "mapJ f (x # xs) w =
     (case f x w of
        (Inl e, w1) \<Rightarrow> (Inl e, w1)
      | (Inr y, w1) \<Rightarrow>
          (case mapJ f xs w1 of
             (Inl e, w2) \<Rightarrow> (Inl e, w2)
           | (Inr ys, w2) \<Rightarrow> (Inr (y # ys), w2)))"

fun mapE :: "('a \<Rightarrow> jsError + 'b) \<Rightarrow> 'a list \<Rightarrow> jsError + 'b list" where
  "mapE f [] = Inr []"
| "mapE f (x # xs) =
     (case f x of
        Inl e \<Rightarrow> Inl e
      | Inr y \<Rightarrow> (case mapE f xs of Inl e \<Rightarrow> Inl e | Inr ys \<Rightarrow> Inr (y # ys)))"

text \<open>\<open>Array.prototype.forEach\<close> with a callback that may throw.\<close>

fun forEachJ :: "('a \<Rightarrow> unit js) \<Rightarrow> 'a list \<Rightarrow> unit js" where
  "forEachJ f [] w = (Inr (), w)"
| "forEachJ f (x # xs) w =
     (case f x w of
        (Inl e, w1) \<Rightarrow> (Inl e, w1)
      | (Inr u, w1) \<Rightarrow> forEachJ f xs w1)"

text \<open>\<open>Array.prototype.filter\<close> with a predicate that may throw.\<close>

fun filterE :: "('a \<Rightarrow> jsError + bool) \<Rightarrow> 'a list \<Rightarrow> jsError + 'a list" where
  "filterE p [] = Inr []"
| "filterE p (x # xs) =
     (case p x of
        Inl e \<Rightarrow> Inl e
      | Inr b \<Rightarrow>
          (case filterE p xs of
             Inl e \<Rightarrow> Inl e
           | Inr ys \<Rightarrow> Inr (if b then x # ys else ys)))"

text \<open>\<open>Array.prototype.join\<close> on an array of strings.\<close>

fun joinWith :: "jsstring \<Rightarrow> jsstring list \<Rightarrow> jsstring" where
  "joinWith sep [] = []"
| "joinWith sep [x] = x"
| "joinWith sep (x # y # ys) = x @ sep @ joinWith sep (y # ys)"

text \<open>The decimal text of a non-negative integer (an array index, a status code).\<close>

fun decimal :: "nat \<Rightarrow> jsstring" where
  "decimal n =
     (if n < 10 then [of_nat (48 + n)]
      else decimal (n div 10) @ [of_nat (48 + n mod 10)])"

declare decimal.simps [simp del]

subsection \<open>Contact synchronizer\<close>

definition headerSelector :: "jsstring \<Rightarrow> jsstring" where
  \<open>headerSelector dataTestName =
     lit ''[data-test-location="header"][data-test-name="'' @ dataTestName @ lit ''"]''\<close>

definition sidebarSelector :: "jsstring \<Rightarrow> jsstring" where
  \<open>sidebarSelector dataTestName =
     lit ''[data-test-location="sidebar"][data-test-name="'' @ dataTestName @ lit ''"]''\<close>

definition syncContactInfo :: "jsstring \<Rightarrow> unit js" where
  "syncContactInfo dataTestName w =
     (case getElement (headerSelector dataTestName) True w of
        (Inl e, w1) \<Rightarrow> (Inl e, w1)
      | (Inr headerElement, w1) \<Rightarrow>
          (case getElement (sidebarSelector dataTestName) True w1 of
             (Inl e, w2) \<Rightarrow> (Inl e, w2)
           | (Inr sidebarElement, w2) \<Rightarrow>
               (case (headerElement, sidebarElement) of
                  (Some h, Some s) \<Rightarrow>
                    (Inr (), w2\<lparr>innerHTML := (innerHTML w2)(h := innerHTML w2 s)\<rparr>)
                | _ \<Rightarrow> (Inr (), w2))))"

subsection \<open>Data loader and validator\<close>

text \<open>
  What \<open>fetch\<close> came back with is an input of the run: the request failed (the promise
  rejects with a TypeError), or a response arrived with a status code and a body; the
  body is \<open>None\<close> when it is not a JSON text. \<open>response.ok\<close> is a status in 200..299.
\<close>

datatype fetched =
    NetworkFailure
  | Response nat "jsval option"

definition loadPortfolioData :: "fetched \<Rightarrow> jsError + jsval" where
  "loadPortfolioData r =
     (case r of
        NetworkFailure \<Rightarrow> Inl TypeError
      | Response status body \<Rightarrow>
          (if \<not> (200 \<le> status \<and> status \<le> 299)
           then Inl (Error (lit ''HTTP '' @ decimal status @ lit '': Failed to load data.json''))
           else (case body of None \<Rightarrow> Inl SyntaxError | Some data \<Rightarrow> Inr data)))"

definition required :: "jsstring list" where
  "required =
     [lit ''personal'', lit ''experience'', lit ''education'', lit ''technicalSkills'',
      lit ''projects'']"

definition validateData :: "jsval \<Rightarrow> jsError + unit" where
  "validateData data =
     (case filterE (\<lambda>section. bindE (getProp data section) (\<lambda>v. Inr (\<not> truthy v))) required of
        Inl e \<Rightarrow> Inl e
      | Inr missing \<Rightarrow>
          (if length missing > 0
           then Inl (Error (lit ''Missing required sections: '' @ joinWith (lit '', '') missing))
           else Inr ()))"

subsection \<open>HTML escaper\<close>

text \<open>
  Reading \<open>innerHTML\<close> of an element whose only child is a text node serializes the text:
  the HTML standard replaces \<open>&\<close> by \<open>&amp;\<close>, the no-break space U+00A0 by \<open>&nbsp;\<close>,
  \<open><\<close> by \<open>&lt;\<close> and \<open>>\<close> by \<open>&gt;\<close>, and leaves every other code unit as it is.
\<close>

definition escapeUnit :: "16 word \<Rightarrow> jsstring" where
  "escapeUnit c =
     (if c = 0x26 then lit ''&amp;''
      else if c = 0xA0 then lit ''&nbsp;''
      else if c = 0x3C then lit ''&lt;''
      else if c = 0x3E then lit ''&gt;''
      else [c])"

definition serializeText :: "jsstring \<Rightarrow> jsstring" where
  "serializeText t = concat (map escapeUnit t)"

definition escapeHtml :: "jsval \<Rightarrow> world \<Rightarrow> jsstring \<times> world" where
  "escapeHtml text w =
     (case text of
        JStr t \<Rightarrow>
          (case escapeCache w t of
             Some cached \<Rightarrow> (cached, w)
           | None \<Rightarrow>
               (let w1 = (if \<not> tempDiv w then w\<lparr>tempDiv := True\<rparr> else w);
                    escaped = serializeText t
                in (escaped, w1\<lparr>escapeCache := (escapeCache w1)(t \<mapsto> escaped)\<rparr>)))
      | _ \<Rightarrow> ([], w))"

text \<open>The escaper's invariant: the cache holds, for a text, its serialization.\<close>

definition escapeCacheSound :: "world \<Rightarrow> bool" where
  "escapeCacheSound w = (\<forall>t. escapeCache w t = None \<or> escapeCache w t = Some (serializeText t))"

section \<open>Section builders\<close>

subsection \<open>The fixed text of the templates\<close>

text \<open>
  The pieces of each template literal between its interpolations, with the line breaks
  and the indentation of the script. The separator of the education template is the three
  code units U+00E2, U+20AC, U+201C.
\<close>

definition experienceText0 :: jsstring where
  \<open>experienceText0 = lit ''\<newline>        <li class="experience-position">\<newline>          <div class="experience-header">\<newline>            <h3 class="experience-company">''\<close>

definition experienceText1 :: jsstring where
  \<open>experienceText1 = lit ''</h3>\<newline>            <div class="experience-title">''\<close>

definition experienceText2 :: jsstring where
  \<open>experienceText2 = lit ''</div>\<newline>            <time datetime="''\<close>

definition experienceText3 :: jsstring where
  \<open>experienceText3 = lit ''">''\<close>

definition experienceText4 :: jsstring where
  \<open>experienceText4 = lit ''</time>\<newline>          </div>\<newline>          <ul class="sub-list">\<newline>            ''\<close>

definition experienceText5 :: jsstring where
  \<open>experienceText5 = lit ''\<newline>          </ul>\<newline>        </li>\<newline>      ''\<close>

definition educationText0 :: jsstring where
  \<open>educationText0 = lit ''\<newline>      <li>\<newline>        <strong>''\<close>

definition educationText1 :: jsstring where
  \<open>educationText1 = lit ''</strong> '' @ [0xE2, 0x20AC, 0x201C] @ lit '' \<newline>        ''\<close>

definition educationText2 :: jsstring where
  \<open>educationText2 = lit '' \<newline>        (<time datetime="''\<close>

definition educationText3 :: jsstring where
  \<open>educationText3 = lit ''">''\<close>

definition educationText4 :: jsstring where
  \<open>educationText4 = lit ''</time>)\<newline>      </li>\<newline>    ''\<close>

definition skillsText0 :: jsstring where
  \<open>skillsText0 = lit ''\<newline>      <dt>''\<close>

definition skillsText1 :: jsstring where
  \<open>skillsText1 = lit ''</dt>\<newline>      <dd>''\<close>

definition skillsText2 :: jsstring where
  \<open>skillsText2 = lit ''</dd>\<newline>    ''\<close>

definition projectsText0 :: jsstring where
  \<open>projectsText0 = lit ''\<newline>        <dt>\<newline>          <a href="''\<close>

definition projectsText1 :: jsstring where
  \<open>projectsText1 = lit ''" ''\<close>

definition projectsText2 :: jsstring where
  \<open>projectsText2 = lit ''>\<newline>            <span class="github-prefix">github.com/</span>''\<close>

definition projectsText3 :: jsstring where
  \<open>projectsText3 = lit ''\<newline>          </a>\<newline>        </dt>\<newline>        <dd>''\<close>

definition projectsText4 :: jsstring where
  \<open>projectsText4 = lit ''</dd>\<newline>      ''\<close>

definition listItemOpen :: jsstring where
  "listItemOpen = lit ''<li>''"

definition listItemClose :: jsstring where
  "listItemClose = lit ''</li>''"

definition externalAttrs :: jsstring where
  \<open>externalAttrs = lit ''target="_blank" rel="noopener"''\<close>

subsection \<open>Writing to a node\<close>

definition assignInnerHTML :: "node \<Rightarrow> jsstring \<Rightarrow> world \<Rightarrow> world" where
  "assignInnerHTML n markup w = w\<lparr>innerHTML := (innerHTML w)(n := markup)\<rparr>"

text \<open>
  The \<open>innerHTML\<close> setter converts the assigned value to a string first, \<open>null\<close> to the
  empty text; the conversion can throw, and then nothing is assigned.
\<close>

definition toMarkup :: "jsval \<Rightarrow> jsError + jsstring" where
  "toMarkup v = (if v = JNull then Inr [] else toStr v)"

definition classListRemove :: "node \<Rightarrow> jsstring \<Rightarrow> world \<Rightarrow> world" where
  "classListRemove n cls w = w\<lparr>classList := (classList w)(n := removeAll cls (classList w n))\<rparr>"

definition bodyClassListAdd :: "jsstring \<Rightarrow> world \<Rightarrow> world" where
  "bodyClassListAdd cls w =
     emit (BodyClassAdd cls)
       (w\<lparr>bodyClassList :=
            (if cls \<in> set (bodyClassList w) then bodyClassList w else bodyClassList w @ [cls])\<rparr>)"

subsection \<open>Highlights\<close>

definition buildHighlights :: "jsval \<Rightarrow> jsError + jsstring" where
  "buildHighlights highlights =
     (case highlights of
        JArr hs \<Rightarrow>
          bindE (mapE (\<lambda>highlight. bindE (toStr highlight)
                         (\<lambda>s. Inr (listItemOpen @ s @ listItemClose))) hs)
            (\<lambda>items. Inr (concat items))
      | _ \<Rightarrow> Inr [])"

subsection \<open>Summary\<close>

text \<open>\<open>data.personal?.summary\<close>\<close>

definition personalSummary :: "jsval \<Rightarrow> jsError + jsval" where
  "personalSummary data =
     bindE (getProp data (lit ''personal''))
       (\<lambda>personal. if nullish personal then Inr JUndefined
                    else getProp personal (lit ''summary''))"

definition buildHeaderSummary :: "jsval \<Rightarrow> unit js" where
  "buildHeaderSummary data w =
     (case getElement (lit ''.header-summary p'') True w of
        (Inl e, w1) \<Rightarrow> (Inl e, w1)
      | (Inr container, w1) \<Rightarrow>
          (case container of
             None \<Rightarrow> (Inr (), emit (ConsoleWarn (lit ''Header summary container not found'')) w1)
           | Some c \<Rightarrow>
               (case personalSummary data of
                  Inl e \<Rightarrow> (Inl e, w1)
                | Inr s \<Rightarrow>
                    (if \<not> truthy s
                     then (Inr (), emit (ConsoleWarn (lit ''No summary data available'')) w1)
                     else
                       (case bindE (bindE (getProp data (lit ''personal''))
                                      (\<lambda>personal. getProp personal (lit ''summary''))) toMarkup of
                          Inl e \<Rightarrow> (Inl e, w1)
                        | Inr markup \<Rightarrow>
                            (Inr (),
                             classListRemove c (lit ''loading-placeholder'')
                               (assignInnerHTML c markup w1)))))))"

subsection \<open>Interpolations shared by the templates\<close>

text \<open>\<open>escapeHtml(obj.key)\<close>\<close>

definition escapedProp :: "jsval \<Rightarrow> jsstring \<Rightarrow> jsstring js" where
  "escapedProp obj key = bindJ (liftE (getProp obj key)) (\<lambda>v. liftS (escapeHtml v))"

text \<open>\<open>obj.key || ''\<close>, converted to a string by the template.\<close>

definition propOrEmpty :: "jsval \<Rightarrow> jsstring \<Rightarrow> jsstring js" where
  "propOrEmpty obj key =
     liftE (bindE (getProp obj key) (\<lambda>v. toStr (if truthy v then v else JStr [])))"

definition warnAndReturn :: "jsstring \<Rightarrow> unit js" where
  "warnAndReturn msg w = (Inr (), emit (ConsoleWarn msg) w)"

definition logError :: "jsstring \<Rightarrow> jsError \<Rightarrow> unit js" where
  "logError msg error w = (Inr (), emit (ConsoleError msg error) w)"

definition setContainer :: "node \<Rightarrow> jsstring list \<Rightarrow> unit js" where
  "setContainer c parts w = (Inr (), assignInnerHTML c (concat parts) w)"

subsection \<open>Experience\<close>

definition renderJob :: "jsval \<Rightarrow> jsstring js" where
  "renderJob job =
     bindJ (liftE (bindE (getProp job (lit ''highlights'')) buildHighlights)) (\<lambda>highlights.
     bindJ (escapedProp job (lit ''company'')) (\<lambda>company.
     bindJ (escapedProp job (lit ''title'')) (\<lambda>title.
     bindJ (propOrEmpty job (lit ''startDate'')) (\<lambda>startDate.
     bindJ (escapedProp job (lit ''period'')) (\<lambda>period.
     returnJ (experienceText0 @ company @ experienceText1 @ title @ experienceText2
              @ startDate @ experienceText3 @ period @ experienceText4 @ highlights
              @ experienceText5))))))"

definition buildExperienceSection :: "jsval \<Rightarrow> unit js" where
  "buildExperienceSection data w =
     (case getElement (lit ''.experience-list'') True w of
        (Inl e, w1) \<Rightarrow> (Inl e, w1)
      | (Inr container, w1) \<Rightarrow>
          (case container of
             None \<Rightarrow> warnAndReturn (lit ''Experience container not found or invalid data'') w1
           | Some c \<Rightarrow>
               (case getProp data (lit ''experience'') of
                  Inl e \<Rightarrow> (Inl e, w1)
                | Inr (JArr jobs) \<Rightarrow>
                    tryCatch (bindJ (mapJ renderJob jobs) (setContainer c))
                      (logError (lit ''Error building experience section:'')) w1
                | Inr _ \<Rightarrow>
                    warnAndReturn (lit ''Experience container not found or invalid data'') w1)))"

subsection \<open>Education\<close>

definition renderCert :: "jsval \<Rightarrow> jsstring js" where
  "renderCert cert =
     bindJ (escapedProp cert (lit ''name'')) (\<lambda>name.
     bindJ (escapedProp cert (lit ''issuer'')) (\<lambda>issuer.
     bindJ (propOrEmpty cert (lit ''dateTime'')) (\<lambda>dateTime.
     bindJ (escapedProp cert (lit ''date'')) (\<lambda>date.
     returnJ (educationText0 @ name @ educationText1 @ issuer @ educationText2
              @ dateTime @ educationText3 @ date @ educationText4)))))"

definition buildEducationSection :: "jsval \<Rightarrow> unit js" where
  "buildEducationSection data w =
     (case getElement (lit ''.education-list'') True w of
        (Inl e, w1) \<Rightarrow> (Inl e, w1)
      | (Inr container, w1) \<Rightarrow>
          (case container of
             None \<Rightarrow> warnAndReturn (lit ''Education container not found or invalid data'') w1
           | Some c \<Rightarrow>
               (case getProp data (lit ''education'') of
                  Inl e \<Rightarrow> (Inl e, w1)
                | Inr (JArr certs) \<Rightarrow>
                    tryCatch (bindJ (mapJ renderCert certs) (setContainer c))
                      (logError (lit ''Error building education section:'')) w1
                | Inr _ \<Rightarrow>
                    warnAndReturn (lit ''Education container not found or invalid data'') w1)))"

subsection \<open>Skills\<close>

text \<open>
  \<open>Object.entries\<close>: the own enumerable properties of an object in its own order; of an
  array and of a string the indices with the elements and the characters; none of a
  number or a boolean; a TypeError for \<open>undefined\<close> and \<open>null\<close>.
\<close>

fun entriesOf :: "jsval \<Rightarrow> jsError + (jsstring \<times> jsval) list" where
  "entriesOf JUndefined = Inl TypeError"
| "entriesOf JNull = Inl TypeError"
| "entriesOf (JObj ps) = Inr ps"
| "entriesOf (JArr xs) = Inr (zip (map decimal [0..<length xs]) xs)"
| "entriesOf (JStr s) = Inr (zip (map decimal [0..<length s]) (map (\<lambda>c. JStr [c]) s))"
| "entriesOf v = Inr []"

definition renderSkill :: "jsstring \<times> jsval \<Rightarrow> jsstring js" where
  "renderSkill entry =
     (case entry of
        (category, skills) \<Rightarrow>
          bindJ (liftS (escapeHtml (JStr category))) (\<lambda>c.
          bindJ (liftS (escapeHtml skills)) (\<lambda>s.
          returnJ (skillsText0 @ c @ skillsText1 @ s @ skillsText2))))"

definition buildSkillsSection :: "jsval \<Rightarrow> unit js" where
  "buildSkillsSection data w =
     (case getElement (lit ''.technical-skills dl'') True w of
        (Inl e, w1) \<Rightarrow> (Inl e, w1)
      | (Inr container, w1) \<Rightarrow>
          (case container of
             None \<Rightarrow> warnAndReturn (lit ''Skills container not found or invalid data'') w1
           | Some c \<Rightarrow>
               (case getProp data (lit ''technicalSkills'') of
                  Inl e \<Rightarrow> (Inl e, w1)
                | Inr technicalSkills \<Rightarrow>
                    (if \<not> truthy technicalSkills
                     then warnAndReturn (lit ''Skills container not found or invalid data'') w1
                     else
                       tryCatch
                         (bindJ (liftE (entriesOf technicalSkills)) (\<lambda>entries.
                          bindJ (mapJ renderSkill entries) (setContainer c)))
                         (logError (lit ''Error building skills section:'')) w1))))"

subsection \<open>Projects\<close>

text \<open>
  \<open>url?.startsWith('http')\<close>: \<open>undefined\<close> for an absent url, the test for a string, and
  a TypeError for any other value, which has no method of that name.
\<close>

definition startsWithHttp :: "jsval \<Rightarrow> jsError + jsval" where
  "startsWithHttp url =
     (case url of
        JUndefined \<Rightarrow> Inr JUndefined
      | JNull \<Rightarrow> Inr JUndefined
      | JStr s \<Rightarrow> Inr (JBool (prefix (lit ''http'') s))
      | _ \<Rightarrow> Inl TypeError)"

definition linkAttrsOf :: "jsval \<Rightarrow> jsstring" where
  "linkAttrsOf isExternal = (if truthy isExternal then externalAttrs else [])"

definition renderProject :: "jsval \<Rightarrow> jsstring js" where
  "renderProject project =
     bindJ (liftE (bindE (getProp project (lit ''url'')) startsWithHttp)) (\<lambda>isExternal.
     bindJ (escapedProp project (lit ''url'')) (\<lambda>url.
     bindJ (escapedProp project (lit ''name'')) (\<lambda>name.
     bindJ (escapedProp project (lit ''description'')) (\<lambda>description.
     returnJ (projectsText0 @ url @ projectsText1 @ linkAttrsOf isExternal @ projectsText2
              @ name @ projectsText3 @ description @ projectsText4)))))"

definition buildProjectsSection :: "jsval \<Rightarrow> unit js" where
  "buildProjectsSection data w =
     (case getElement (lit ''.key-projects dl'') True w of
        (Inl e, w1) \<Rightarrow> (Inl e, w1)
      | (Inr container, w1) \<Rightarrow>
          (case container of
             None \<Rightarrow> warnAndReturn (lit ''Projects container not found or invalid data'') w1
           | Some c \<Rightarrow>
               (case getProp data (lit ''projects'') of
                  Inl e \<Rightarrow> (Inl e, w1)
                | Inr (JArr projects) \<Rightarrow>
                    tryCatch (bindJ (mapJ renderProject projects) (setContainer c))
                      (logError (lit ''Error building projects section:'')) w1
                | Inr _ \<Rightarrow>
                    warnAndReturn (lit ''Projects container not found or invalid data'') w1)))"

section \<open>Page initializer\<close>

text \<open>
  \<open>requestAnimationFrame\<close> queues a callback for the next frame. The two callbacks of the
  script are the contact synchronization and the five builders followed by the reveal
  of the page. A frame runs the queued callbacks in the order they were queued; an
  exception a callback lets through ends that callback only and is reported as uncaught.
  Elapsed time is not part of the model: the debug message is recorded without its text.
\<close>

definition requestAnimationFrame :: "callback \<Rightarrow> world \<Rightarrow> world" where
  "requestAnimationFrame t w = w\<lparr>frames := frames w @ [t]\<rparr>"

definition contentLoaded :: jsstring where
  "contentLoaded = lit ''content-loaded''"

definition contactTypes :: "jsstring list" where
  "contactTypes =
     [lit ''contact-location'', lit ''contact-email'', lit ''contact-github'',
      lit ''contact-linkedin'', lit ''contact-pdf'']"

definition revealAndReport :: "unit js" where
  "revealAndReport w = (Inr (), emit ConsoleDebug (bodyClassListAdd contentLoaded w))"

definition buildSections :: "jsval \<Rightarrow> unit js" where
  "buildSections data =
     bindJ (buildHeaderSummary data) (\<lambda>_.
     bindJ (buildExperienceSection data) (\<lambda>_.
     bindJ (buildEducationSection data) (\<lambda>_.
     bindJ (buildSkillsSection data) (\<lambda>_.
     bindJ (buildProjectsSection data) (\<lambda>_.
     revealAndReport)))))"

definition initPortfolioContent :: "fetched \<Rightarrow> world \<Rightarrow> world" where
  "initPortfolioContent r w =
     (case bindE (loadPortfolioData r) (\<lambda>data. bindE (validateData data) (\<lambda>_. Inr data)) of
        Inr data \<Rightarrow> requestAnimationFrame (BuildSections data) w
      | Inl error \<Rightarrow>
          bodyClassListAdd contentLoaded
            (emit (ConsoleError (lit ''Failed to load dynamic content:'') error) w))"

fun runCallback :: "callback \<Rightarrow> unit js" where
  "runCallback SyncContacts w = forEachJ syncContactInfo contactTypes w"
| "runCallback (BuildSections data) w = buildSections data w"

fun runFrames :: "callback list \<Rightarrow> world \<Rightarrow> world" where
  "runFrames [] w = w"
| "runFrames (t # ts) w =
     runFrames ts
       (case runCallback t w of
          (Inl e, w1) \<Rightarrow> emit (Uncaught e) w1
        | (Inr u, w1) \<Rightarrow> w1)"

text \<open>
  The \<open>DOMContentLoaded\<close> handler, and then the frames it queued. The fetch is taken to
  settle before the next frame; the first callback touches the contact nodes only, so
  the other order gives the same page.
\<close>

definition onDOMContentLoaded :: "fetched \<Rightarrow> world \<Rightarrow> world" where
  "onDOMContentLoaded r w = initPortfolioContent r (requestAnimationFrame SyncContacts w)"

definition pageLoad :: "fetched \<Rightarrow> world \<Rightarrow> world" where
  "pageLoad r w =
     (let w1 = onDOMContentLoaded r w
      in runFrames (frames w1) (w1\<lparr>frames := []\<rparr>))"

text \<open>A page as the script finds it: empty caches, nothing queued, nothing logged.\<close>

definition freshPage ::
  "(jsstring \<Rightarrow> jsError + node option) \<Rightarrow> (node \<Rightarrow> jsstring) \<Rightarrow> (node \<Rightarrow> jsstring list)
     \<Rightarrow> jsstring list \<Rightarrow> world" where
  "freshPage doc markup classes bodyClasses =
     \<lparr>domCache = Map.empty, escapeCache = Map.empty, tempDiv = False, document = doc,
      innerHTML = markup, classList = classes, bodyClassList = bodyClasses, frames = [],
      trace = []\<rparr>"

section \<open>Notions the properties are stated with\<close>

text \<open>
  A key of the document is missing when the document has no such own property or the
  property is falsy; a document that is no object has none of the keys.
\<close>

definition absentOrFalsy :: "jsval \<Rightarrow> jsstring \<Rightarrow> bool" where
  "absentOrFalsy data key =
     (case data of
        JObj ps \<Rightarrow> (case map_of ps key of None \<Rightarrow> True | Some v \<Rightarrow> \<not> truthy v)
      | _ \<Rightarrow> True)"

text \<open>The escaped form of a value: the serialization of a text, the empty text otherwise.\<close>

definition escaped :: "jsval \<Rightarrow> jsstring" where
  "escaped v = (case v of JStr t \<Rightarrow> serializeText t | _ \<Rightarrow> [])"

text \<open>Every \<open>&\<close> of a text starts one of the four entities the serialization writes.\<close>

fun ampersandsEscaped :: "jsstring \<Rightarrow> bool" where
  "ampersandsEscaped [] = True"
| "ampersandsEscaped (c # cs) =
     ((c \<noteq> 0x26 \<or> prefix (lit ''amp;'') cs \<or> prefix (lit ''nbsp;'') cs
        \<or> prefix (lit ''lt;'') cs \<or> prefix (lit ''gt;'') cs)
      \<and> ampersandsEscaped cs)"

text \<open>
  A page with the five containers (nodes 1 to 5), each showing a placeholder, and the
  header and sidebar nodes of the e-mail contact field (nodes 6 and 7). Its
  \<open>querySelector\<close> rejects the string \<open>div[\<close> and answers every other string.
\<close>

definition exampleNodes :: "jsstring \<rightharpoonup> node" where
  "exampleNodes =
     [lit ''.header-summary p'' \<mapsto> 1, lit ''.experience-list'' \<mapsto> 2,
      lit ''.education-list'' \<mapsto> 3, lit ''.technical-skills dl'' \<mapsto> 4,
      lit ''.key-projects dl'' \<mapsto> 5,
      headerSelector (lit ''contact-email'') \<mapsto> 6,
      sidebarSelector (lit ''contact-email'') \<mapsto> 7]"

definition examplePage :: world where
  \<open>examplePage =
     freshPage
       (\<lambda>sel. if sel = lit ''div['' then Inl SyntaxError else Inr (exampleNodes sel))
       (\<lambda>n. if n = 7 then lit ''<a href="mailto:me@x.com">me@x.com</a>'' else lit ''Loading...'')
       (\<lambda>n. if n = 1 then [lit ''loading-placeholder''] else [])
       []\<close>

text \<open>
  The same page later on: the selector \<open>.gone\<close> was cached, with node 9, while it
  matched, and matches no node any more.
\<close>

definition stalePage :: world where
  "stalePage = examplePage\<lparr>domCache := [lit ''.gone'' \<mapsto> Some 9]\<rparr>"

text \<open>The document answers a selector: \<open>querySelector\<close> does not reject it.\<close>

definition answers :: "world \<Rightarrow> jsstring \<Rightarrow> bool" where
  "answers w sel = (case document w sel of Inl e \<Rightarrow> False | Inr n \<Rightarrow> True)"

definition containerSelectors :: "jsstring list" where
  "containerSelectors =
     [lit ''.header-summary p'', lit ''.experience-list'', lit ''.education-list'',
      lit ''.technical-skills dl'', lit ''.key-projects dl'']"

definition answersContainers :: "world \<Rightarrow> bool" where
  "answersContainers w = list_all (answers w) containerSelectors"

text \<open>
  A statement that changes nothing of the page but the escaper's cache and its temporary
  element, and keeps a sound cache sound; and a statement that, from a sound cache,
  completes with a given result and leaves the cache sound.
\<close>

definition touchesEscaperOnly :: "world \<Rightarrow> world \<Rightarrow> bool" where
  "touchesEscaperOnly w w' =
     (w' = w\<lparr>escapeCache := escapeCache w', tempDiv := tempDiv w'\<rparr>
      \<and> (escapeCacheSound w \<longrightarrow> escapeCacheSound w'))"

definition framed :: "'a js \<Rightarrow> bool" where
  "framed m = (\<forall>w. touchesEscaperOnly w (snd (m w)))"

definition runs :: "'a js \<Rightarrow> jsError + 'a \<Rightarrow> bool" where
  "runs m r =
     (\<forall>w. escapeCacheSound w \<longrightarrow> fst (m w) = r \<and> escapeCacheSound (snd (m w)))"

text \<open>
  The number of times the page has been revealed. A step that keeps the two caches in
  their invariants and the document as it is; a quiet step, which moreover neither
  reveals the page nor queues a frame.
\<close>

definition reveals :: "world \<Rightarrow> nat" where
  "reveals w = count_list (trace w) (BodyClassAdd contentLoaded)"

definition kept :: "world \<Rightarrow> world \<Rightarrow> bool" where
  "kept w w' =
     (document w' = document w
      \<and> (domCacheNonNull w \<longrightarrow> domCacheNonNull w')
      \<and> (escapeCacheSound w \<longrightarrow> escapeCacheSound w'))"

definition quiet :: "world \<Rightarrow> world \<Rightarrow> bool" where
  "quiet w w' =
     (kept w w' \<and> bodyClassList w' = bodyClassList w \<and> frames w' = frames w
      \<and> reveals w' = reveals w)"

definition keptJ :: "'a js \<Rightarrow> bool" where
  "keptJ m = (\<forall>w. kept w (snd (m w)))"

definition quietJ :: "'a js \<Rightarrow> bool" where
  "quietJ m = (\<forall>w. quiet w (snd (m w)))"

text \<open>
  The records of the data model: an experience entry and a project, with text fields,
  the object each is in the parsed document, and the markup of each.
\<close>

record job =
  jobCompany :: jsstring
  jobTitle :: jsstring
  jobPeriod :: jsstring
  jobStartDate :: jsstring
  jobHighlights :: "jsstring list"

definition jobEntry :: "job \<Rightarrow> jsval" where
  "jobEntry j =
     JObj [(lit ''company'', JStr (jobCompany j)), (lit ''title'', JStr (jobTitle j)),
           (lit ''period'', JStr (jobPeriod j)), (lit ''startDate'', JStr (jobStartDate j)),
           (lit ''highlights'', JArr (map JStr (jobHighlights j)))]"

definition jobMarkup :: "job \<Rightarrow> jsstring" where
  \<open>jobMarkup j =
     lit ''\<newline>        <li class="experience-position">''
     @ lit ''\<newline>          <div class="experience-header">''
     @ lit ''\<newline>            <h3 class="experience-company">''
     @ serializeText (jobCompany j) @ lit ''</h3>''
     @ lit ''\<newline>            <div class="experience-title">''
     @ serializeText (jobTitle j) @ lit ''</div>''
     @ lit ''\<newline>            <time datetime="'' @ jobStartDate j @ lit ''">''
     @ serializeText (jobPeriod j) @ lit ''</time>''
     @ lit ''\<newline>          </div>''
     @ lit ''\<newline>          <ul class="sub-list">''
     @ lit ''\<newline>            ''
     @ concat (map (\<lambda>h. lit ''<li>'' @ h @ lit ''</li>'') (jobHighlights j))
     @ lit ''\<newline>          </ul>''
     @ lit ''\<newline>        </li>''
     @ lit ''\<newline>      ''\<close>

record project =
  projectName :: jsstring
  projectUrl :: jsstring
  projectDescription :: jsstring

definition projectEntry :: "project \<Rightarrow> jsval" where
  "projectEntry p =
     JObj [(lit ''name'', JStr (projectName p)), (lit ''url'', JStr (projectUrl p)),
           (lit ''description'', JStr (projectDescription p))]"

definition projectMarkup :: "project \<Rightarrow> jsstring" where
  \<open>projectMarkup p =
     lit ''\<newline>        <dt>''
     @ lit ''\<newline>          <a href="'' @ serializeText (projectUrl p) @ lit ''" ''
     @ (if prefix (lit ''http'') (projectUrl p) then lit ''target="_blank" rel="noopener"''
        else [])
     @ lit ''>''
     @ lit ''\<newline>            <span class="github-prefix">github.com/</span>''
     @ serializeText (projectName p)
     @ lit ''\<newline>          </a>''
     @ lit ''\<newline>        </dt>''
     @ lit ''\<newline>        <dd>'' @ serializeText (projectDescription p) @ lit ''</dd>''
     @ lit ''\<newline>      ''\<close>

text \<open>A well-formed document with one experience entry, and one with two projects.\<close>

definition acme :: job where
  "acme =
     \<lparr>jobCompany = lit ''Acme'', jobTitle = lit ''Engineer'', jobPeriod = lit ''2020 - 2024'',
      jobStartDate = lit ''2020-01'', jobHighlights = [lit ''Shipped X'']\<rparr>"

definition repoProject :: project where
  "repoProject =
     \<lparr>projectName = lit ''me/repo'', projectUrl = lit ''https://github.com/me/repo'',
      projectDescription = lit ''A tool''\<rparr>"

definition mailProject :: project where
  "mailProject =
     \<lparr>projectName = lit ''mail'', projectUrl = lit ''mailto:me@x.com'',
      projectDescription = lit ''Write to me''\<rparr>"

definition acmeDocument :: jsval where
  "acmeDocument =
     JObj [(lit ''personal'', JObj [(lit ''summary'', JStr (lit ''Hello''))]),
           (lit ''experience'', JArr [jobEntry acme]),
           (lit ''education'', JArr []),
           (lit ''technicalSkills'', JObj []),
           (lit ''projects'', JArr [projectEntry repoProject, projectEntry mailProject])]"

text \<open>
  A document that passes validation and whose summary is an object with an own property
  \<open>toString\<close>; a document whose experience is a text instead of a list; a document
  with both; a highlight with markup in it; and a project whose url has a double quote.
\<close>

definition trapLoose :: jsval where
  "trapLoose =
     JObj [(lit ''personal'',
              JObj [(lit ''summary'', JObj [(lit ''toString'', JNum False (lit ''1''))])]),
           (lit ''experience'', JStr (lit ''none yet'')),
           (lit ''education'', JArr []),
           (lit ''technicalSkills'', JObj []),
           (lit ''projects'', JArr [projectEntry repoProject])]"

definition boldHighlight :: jsstring where
  "boldHighlight = lit ''<b>Led</b> a team''"

definition boldJob :: job where
  "boldJob =
     \<lparr>jobCompany = lit ''Acme & Co'', jobTitle = lit ''Engineer'',
      jobPeriod = lit ''2020 - 2024'', jobStartDate = lit ''2020-01'',
      jobHighlights = [boldHighlight]\<rparr>"

definition quoteProject :: project where
  \<open>quoteProject =
     \<lparr>projectName = lit ''quote'', projectUrl = lit ''x" target="_blank" rel="noopener'',
      projectDescription = lit ''A link''\<rparr>\<close>

definition trapDocument :: jsval where
  "trapDocument =
     JObj [(lit ''personal'',
              JObj [(lit ''summary'', JObj [(lit ''toString'', JNum False (lit ''1''))])]),
           (lit ''experience'', JArr [jobEntry acme]),
           (lit ''education'', JArr []),
           (lit ''technicalSkills'', JObj []),
           (lit ''projects'', JArr [projectEntry repoProject])]"

definition looseDocument :: jsval where
  "looseDocument =
     JObj [(lit ''personal'', JObj [(lit ''summary'', JStr (lit ''Hello''))]),
           (lit ''experience'', JStr (lit ''none yet'')),
           (lit ''education'', JArr []),
           (lit ''technicalSkills'', JObj []),
           (lit ''projects'', JArr [projectEntry repoProject])]"

section \<open>Element resolver: what a lookup leaves alone\<close>

lemmas page_simps =
  examplePage_def exampleNodes_def freshPage_def lit_def headerSelector_def
  sidebarSelector_def emit_def Let_def

lemma getElement_cached:
  "getElement sel True w = (Inr (Some n), w1) \<Longrightarrow> domCache w1 sel = Some (Some n)"
  by (auto simp: getElement_def emit_def Let_def split: if_splits sum.splits)

lemma getElement_frame:
  "innerHTML (snd (getElement sel u w)) = innerHTML w"
  "classList (snd (getElement sel u w)) = classList w"
  "bodyClassList (snd (getElement sel u w)) = bodyClassList w"
  "document (snd (getElement sel u w)) = document w"
  "escapeCache (snd (getElement sel u w)) = escapeCache w"
  "frames (snd (getElement sel u w)) = frames w"
  by (simp_all add: getElement_def emit_def Let_def split: sum.splits)

lemma getElement_answered:
  assumes "answers w sel"
  shows "\<exists>c. fst (getElement sel u w) = Inr c"
  using assms by (auto simp: getElement_def answers_def Let_def split: sum.splits)

section \<open>Contact synchronizer\<close>

lemma syncContactInfo_split:
  "syncContactInfo name w =
     (case fst (getElement (headerSelector name) True w) of
        Inl e \<Rightarrow> (Inl e, snd (getElement (headerSelector name) True w))
      | Inr headerElement \<Rightarrow>
          (case fst (getElement (sidebarSelector name) True
                      (snd (getElement (headerSelector name) True w))) of
             Inl e \<Rightarrow>
               (Inl e, snd (getElement (sidebarSelector name) True
                              (snd (getElement (headerSelector name) True w))))
           | Inr sidebarElement \<Rightarrow>
               (case (headerElement, sidebarElement) of
                  (Some h, Some s) \<Rightarrow>
                    (Inr (),
                     (snd (getElement (sidebarSelector name) True
                            (snd (getElement (headerSelector name) True w))))
                       \<lparr>innerHTML :=
                          (innerHTML w)(h := innerHTML w s)\<rparr>)
                | _ \<Rightarrow>
                    (Inr (), snd (getElement (sidebarSelector name) True
                                   (snd (getElement (headerSelector name) True w)))))))"
proof -
  obtain r1 w1 where 1: "getElement (headerSelector name) True w = (r1, w1)"
    by (cases "getElement (headerSelector name) True w")
  obtain r2 w2 where 2: "getElement (sidebarSelector name) True w1 = (r2, w2)"
    by (cases "getElement (sidebarSelector name) True w1")
  have "innerHTML w2 = innerHTML w"
    using 1 2 getElement_frame(1) [of "headerSelector name" True w]
      getElement_frame(1) [of "sidebarSelector name" True w1]
    by simp
  then show ?thesis
    using 1 2 by (simp add: syncContactInfo_def split: sum.splits option.splits)
qed



section \<open>Data validator\<close>

lemma missing_test:
  "\<not> nullish data \<Longrightarrow>
   bindE (getProp data k) (\<lambda>v. Inr (\<not> truthy v)) = Inr (absentOrFalsy data k)"
  by (cases data) (simp_all add: bindE_def absentOrFalsy_def split: option.splits)

lemma filterE_total:
  "(\<And>x. p x = Inr (q x)) \<Longrightarrow> filterE p xs = Inr (filter q xs)"
  by (induction xs) simp_all

text \<open>
  C4, as the code has it. For a parsed document other than \<open>null\<close>, validation fails
  exactly when one of the five required keys is absent or falsy, and the error message
  names the missing keys, joined by a comma and a space, in the order of the required
  list.
\<close>

theorem validateData_names_missing:
  "\<not> nullish data \<Longrightarrow>
   validateData data =
     (if filter (absentOrFalsy data) required = [] then Inr ()
      else Inl (Error (lit ''Missing required sections: ''
                       @ joinWith (lit '', '') (filter (absentOrFalsy data) required))))"
  by (simp add: validateData_def missing_test filterE_total)

theorem validateData_names_missing_witness:
  "\<not> nullish (JObj [(lit ''personal'', JObj [])])
   \<and> validateData (JObj [(lit ''personal'', JObj [])]) =
     Inl (Error (lit ''Missing required sections: experience, education, technicalSkills, projects''))"
proof -
  have a: "\<not> nullish (JObj [(lit ''personal'', JObj [])])"
    by simp
  have b: "filter (absentOrFalsy (JObj [(lit ''personal'', JObj [])])) required
           = [lit ''experience'', lit ''education'', lit ''technicalSkills'', lit ''projects'']"
    by (simp add: absentOrFalsy_def required_def lit_def)
  show ?thesis
    using validateData_names_missing [OF a] unfolding b by (simp add: lit_def)
qed

text \<open>
  The document \<open>null\<close> is a parsed document: reading its first key throws a TypeError,
  and the error names no key.
\<close>

theorem validateData_null_counterexample:
  "validateData JNull = Inl TypeError
   \<and> validateData JNull \<noteq>
       Inl (Error (lit ''Missing required sections: personal, experience, education, technicalSkills, projects''))"
  by (simp add: validateData_def required_def bindE_def)

section \<open>HTML escaper\<close>

lemma escapeUnit_no_angle: "0x3C \<notin> set (escapeUnit c) \<and> 0x3E \<notin> set (escapeUnit c)"
  by (simp add: escapeUnit_def lit_def)

lemma serializeText_no_angle:
  "0x3C \<notin> set (serializeText t) \<and> 0x3E \<notin> set (serializeText t)"
  by (induction t) (simp_all add: serializeText_def escapeUnit_no_angle)

lemma escapeUnit_amp: "ampersandsEscaped r \<Longrightarrow> ampersandsEscaped (escapeUnit c @ r)"
  by (simp add: escapeUnit_def lit_def)

lemma serializeText_amp: "ampersandsEscaped (serializeText t)"
  by (induction t) (simp_all add: serializeText_def escapeUnit_amp)

lemma escapeCache_hit:
  "escapeCacheSound w \<Longrightarrow> escapeCache w t = Some x \<Longrightarrow> x = serializeText t"
  unfolding escapeCacheSound_def by (metis option.distinct(1) option.inject)

lemma escapeHtml_result:
  "escapeCacheSound w \<Longrightarrow> fst (escapeHtml v w) = escaped v"
  by (cases v)
    (auto simp: escapeHtml_def escaped_def Let_def dest: escapeCache_hit split: option.splits)

lemma escapeHtml_sound:
  "escapeCacheSound w \<Longrightarrow> escapeCacheSound (snd (escapeHtml v w))"
  by (auto simp: escapeHtml_def escapeCacheSound_def Let_def split: jsval.splits option.splits)

lemma freshPage_sound: "escapeCacheSound (freshPage doc markup classes body)"
  by (simp add: escapeCacheSound_def freshPage_def)

text \<open>
  C5. A value that is not a string is escaped to the empty text. In a state whose cache
  is sound (it holds serializations only, as the cache of a fresh page does and as the
  escaper keeps it), a string is escaped to its serialization, which has no \<open><\<close> and no
  \<open>>\<close> and in which every \<open>&\<close> starts an entity; the result is then in the cache, and
  escaping the same string again returns it and leaves the state as it is.
\<close>

theorem escapeHtml_safe:
  "((\<forall>t. v \<noteq> JStr t) \<longrightarrow> fst (escapeHtml v w) = [])
   \<and> (escapeCacheSound w \<longrightarrow>
        fst (escapeHtml (JStr t) w) = serializeText t
        \<and> 0x3C \<notin> set (fst (escapeHtml (JStr t) w))
        \<and> 0x3E \<notin> set (fst (escapeHtml (JStr t) w))
        \<and> ampersandsEscaped (fst (escapeHtml (JStr t) w))
        \<and> escapeCache (snd (escapeHtml (JStr t) w)) t = Some (fst (escapeHtml (JStr t) w))
        \<and> escapeHtml (JStr t) (snd (escapeHtml (JStr t) w))
            = (fst (escapeHtml (JStr t) w), snd (escapeHtml (JStr t) w))
        \<and> escapeCacheSound (snd (escapeHtml (JStr t) w)))"
proof (intro conjI impI)
  assume "\<forall>t. v \<noteq> JStr t"
  then show "fst (escapeHtml v w) = []"
    by (cases v) (simp_all add: escapeHtml_def)
next
  assume s: "escapeCacheSound w"
  then show r: "fst (escapeHtml (JStr t) w) = serializeText t"
    by (simp add: escapeHtml_result escaped_def)
  show "0x3C \<notin> set (fst (escapeHtml (JStr t) w))" "0x3E \<notin> set (fst (escapeHtml (JStr t) w))"
    using r serializeText_no_angle by simp_all
  show "ampersandsEscaped (fst (escapeHtml (JStr t) w))"
    using r serializeText_amp by simp
  show "escapeCache (snd (escapeHtml (JStr t) w)) t = Some (fst (escapeHtml (JStr t) w))"
    by (auto simp: escapeHtml_def Let_def split: option.splits)
  show "escapeHtml (JStr t) (snd (escapeHtml (JStr t) w))
            = (fst (escapeHtml (JStr t) w), snd (escapeHtml (JStr t) w))"
    by (auto simp: escapeHtml_def Let_def split: option.splits)
  show "escapeCacheSound (snd (escapeHtml (JStr t) w))"
    using s by (rule escapeHtml_sound)
qed

theorem escapeHtml_safe_witness:
  "fst (escapeHtml (JNum False (lit ''7'')) examplePage) = []
   \<and> escapeCacheSound examplePage
   \<and> fst (escapeHtml (JStr (lit ''<a & b>'')) examplePage) = lit ''&lt;a &amp; b&gt;''
   \<and> escapeCache (snd (escapeHtml (JStr (lit ''<a & b>'')) examplePage)) (lit ''<a & b>'')
       = Some (lit ''&lt;a &amp; b&gt;'')"
proof -
  have a: "\<forall>t. JNum False (lit ''7'') \<noteq> JStr t"
    by simp
  have b: "escapeCacheSound examplePage"
    unfolding examplePage_def by (rule freshPage_sound)
  have c: "serializeText (lit ''<a & b>'') = lit ''&lt;a &amp; b&gt;''"
    by (simp add: serializeText_def escapeUnit_def lit_def)
  show ?thesis
    using a b c escapeHtml_safe [of "JNum False (lit ''7'')" examplePage "lit ''<a & b>''"]
    by simp
qed

section \<open>Statements that only use the escaper\<close>

lemma touchesEscaperOnly_refl: "touchesEscaperOnly w w"
  by (simp add: touchesEscaperOnly_def)

lemma touchesEscaperOnly_trans:
  assumes "touchesEscaperOnly w w1" and "touchesEscaperOnly w1 w2"
  shows "touchesEscaperOnly w w2"
proof -
  have a: "w1 = w\<lparr>escapeCache := escapeCache w1, tempDiv := tempDiv w1\<rparr>"
    and b: "w2 = w1\<lparr>escapeCache := escapeCache w2, tempDiv := tempDiv w2\<rparr>"
    and c: "escapeCacheSound w \<longrightarrow> escapeCacheSound w2"
    using assms unfolding touchesEscaperOnly_def by blast+
  have "w2 = w\<lparr>escapeCache := escapeCache w2, tempDiv := tempDiv w2\<rparr>"
    using a b by (cases w; cases w1; cases w2; simp)
  then show ?thesis
    using c unfolding touchesEscaperOnly_def by blast
qed

lemma touchesEscaperOnly_fields:
  assumes "touchesEscaperOnly w w'"
  shows "domCache w' = domCache w" "document w' = document w" "innerHTML w' = innerHTML w"
    "classList w' = classList w" "bodyClassList w' = bodyClassList w" "frames w' = frames w"
    "trace w' = trace w"
proof -
  have "w' = w\<lparr>escapeCache := escapeCache w', tempDiv := tempDiv w'\<rparr>"
    using assms unfolding touchesEscaperOnly_def by blast
  then show "domCache w' = domCache w" "document w' = document w"
    "innerHTML w' = innerHTML w" "classList w' = classList w"
    "bodyClassList w' = bodyClassList w" "frames w' = frames w" "trace w' = trace w"
    by (cases w; cases w'; simp)+
qed

lemma framed_liftE: "framed (liftE r)"
  by (simp add: framed_def liftE_def touchesEscaperOnly_refl)

lemma framed_returnJ: "framed (returnJ x)"
  by (simp add: framed_def returnJ_def touchesEscaperOnly_refl)

lemma escapeHtml_touches: "touchesEscaperOnly w (snd (escapeHtml v w))"
proof -
  have "snd (escapeHtml v w)
          = w\<lparr>escapeCache := escapeCache (snd (escapeHtml v w)),
               tempDiv := tempDiv (snd (escapeHtml v w))\<rparr>"
    by (cases v) (simp_all add: escapeHtml_def Let_def split: option.splits)
  then show ?thesis
    unfolding touchesEscaperOnly_def using escapeHtml_sound by blast
qed

lemma framed_escapeHtml: "framed (liftS (escapeHtml v))"
  by (simp add: framed_def liftS_def case_prod_beta escapeHtml_touches)

lemma framed_bindJ:
  assumes "framed m" and "\<And>x. framed (f x)"
  shows "framed (bindJ m f)"
  unfolding framed_def
proof
  fix w
  obtain r w1 where m: "m w = (r, w1)"
    by (cases "m w")
  have a: "touchesEscaperOnly w w1"
    using assms(1) m unfolding framed_def by (metis snd_conv)
  show "touchesEscaperOnly w (snd (bindJ m f w))"
  proof (cases r)
    case (Inl e)
    then show ?thesis
      using a m by (simp add: bindJ_def)
  next
    case (Inr x)
    have "touchesEscaperOnly w1 (snd (f x w1))"
      using assms(2) unfolding framed_def by blast
    then show ?thesis
      using a m Inr by (simp add: bindJ_def touchesEscaperOnly_trans)
  qed
qed

lemma framed_mapJ:
  assumes "\<And>x. framed (f x)"
  shows "framed (mapJ f xs)"
proof (induction xs)
  case Nil
  show ?case
    by (simp add: framed_def touchesEscaperOnly_refl)
next
  case (Cons x xs)
  have eq: "mapJ f (x # xs) = bindJ (f x) (\<lambda>y. bindJ (mapJ f xs) (\<lambda>ys. returnJ (y # ys)))"
    by (rule ext) (simp add: bindJ_def returnJ_def split: prod.splits sum.splits)
  show ?case
    unfolding eq by (intro framed_bindJ assms Cons.IH framed_returnJ)
qed

lemma runs_liftE: "runs (liftE r) r"
  by (simp add: runs_def liftE_def)

lemma runs_returnJ: "runs (returnJ x) (Inr x)"
  by (simp add: runs_def returnJ_def)

lemma runs_escapeHtml: "runs (liftS (escapeHtml v)) (Inr (escaped v))"
  by (simp add: runs_def liftS_def case_prod_beta escapeHtml_result escapeHtml_sound)

lemma runs_bindJ:
  assumes "runs m r" and "\<And>x. runs (f x) (g x)"
  shows "runs (bindJ m f) (bindE r g)"
  unfolding runs_def
proof (intro allI impI)
  fix w
  assume s: "escapeCacheSound w"
  obtain r' w1 where m: "m w = (r', w1)"
    by (cases "m w")
  have a: "r' = r" "escapeCacheSound w1"
    using assms(1) s m unfolding runs_def by (metis fst_conv, metis snd_conv)
  show "fst (bindJ m f w) = bindE r g \<and> escapeCacheSound (snd (bindJ m f w))"
  proof (cases r)
    case (Inl e)
    then show ?thesis
      using a m by (simp add: bindJ_def bindE_def)
  next
    case (Inr x)
    have "fst (f x w1) = g x \<and> escapeCacheSound (snd (f x w1))"
      using assms(2) a(2) unfolding runs_def by blast
    then show ?thesis
      using a m Inr by (simp add: bindJ_def bindE_def)
  qed
qed

lemma mapE_map_Inr: "mapE (\<lambda>x. Inr (g x)) xs = Inr (map g xs)"
  by (induction xs) simp_all

lemma runs_mapJ:
  assumes "\<And>x. runs (f x) (Inr (g x))"
  shows "runs (mapJ f xs) (Inr (map g xs))"
proof (induction xs)
  case Nil
  show ?case
    by (simp add: runs_def)
next
  case (Cons x xs)
  have eq: "mapJ f (x # xs) = bindJ (f x) (\<lambda>y. bindJ (mapJ f xs) (\<lambda>ys. returnJ (y # ys)))"
    by (rule ext) (simp add: bindJ_def returnJ_def split: prod.splits sum.splits)
  have "runs (mapJ f (x # xs))
          (bindE (Inr (g x)) (\<lambda>y. bindE (Inr (map g xs)) (\<lambda>ys. Inr (y # ys))))"
    unfolding eq by (intro runs_bindJ assms Cons.IH runs_returnJ)
  then show ?case
    by (simp add: bindE_def del: mapJ.simps)
qed

lemma bindJ_liftE_Inr: "bindJ (liftE (Inr x)) f = f x"
  by (rule ext) (simp add: bindJ_def liftE_def)

lemma runs_bindJ_Inr:
  assumes "runs m (Inr a)" and "runs (f a) r"
  shows "runs (bindJ m f) r"
  unfolding runs_def
proof (intro allI impI)
  fix w
  assume s: "escapeCacheSound w"
  obtain r' w1 where m: "m w = (r', w1)"
    by (cases "m w")
  have a: "r' = Inr a" "escapeCacheSound w1"
    using assms(1) s m unfolding runs_def by (metis fst_conv, metis snd_conv)
  have "fst (f a w1) = r \<and> escapeCacheSound (snd (f a w1))"
    using assms(2) a(2) unfolding runs_def by blast
  then show "fst (bindJ m f w) = r \<and> escapeCacheSound (snd (bindJ m f w))"
    using a m by (simp add: bindJ_def)
qed

lemma escaped_JStr: "escaped (JStr t) = serializeText t"
  by (simp add: escaped_def)

lemma highlights_of_texts:
  "buildHighlights (JArr (map JStr hs))
     = Inr (concat (map (\<lambda>h. listItemOpen @ h @ listItemClose) hs))"
proof -
  have "mapE (\<lambda>highlight. bindE (toStr highlight) (\<lambda>s. Inr (listItemOpen @ s @ listItemClose)))
          (map JStr hs)
        = Inr (map (\<lambda>h. listItemOpen @ h @ listItemClose) hs)"
    by (induction hs) (simp_all add: bindE_def)
  then show ?thesis
    by (simp add: buildHighlights_def bindE_def)
qed

lemma jobEntry_props:
  "getProp (jobEntry j) (lit ''company'') = Inr (JStr (jobCompany j))"
  "getProp (jobEntry j) (lit ''title'') = Inr (JStr (jobTitle j))"
  "getProp (jobEntry j) (lit ''period'') = Inr (JStr (jobPeriod j))"
  "getProp (jobEntry j) (lit ''startDate'') = Inr (JStr (jobStartDate j))"
  "getProp (jobEntry j) (lit ''highlights'') = Inr (JArr (map JStr (jobHighlights j)))"
  by (simp_all add: jobEntry_def lit_def)

lemma renderJob_entry:
  "renderJob (jobEntry j) =
     bindJ (liftS (escapeHtml (JStr (jobCompany j)))) (\<lambda>company.
     bindJ (liftS (escapeHtml (JStr (jobTitle j)))) (\<lambda>title.
     bindJ (liftS (escapeHtml (JStr (jobPeriod j)))) (\<lambda>period.
     returnJ (experienceText0 @ company @ experienceText1 @ title @ experienceText2
              @ jobStartDate j @ experienceText3 @ period @ experienceText4
              @ concat (map (\<lambda>h. listItemOpen @ h @ listItemClose) (jobHighlights j))
              @ experienceText5))))"
  by (simp add: renderJob_def escapedProp_def propOrEmpty_def jobEntry_props bindE_def
      highlights_of_texts bindJ_liftE_Inr)

lemma jobMarkup_pieces:
  "jobMarkup j =
     experienceText0 @ escaped (JStr (jobCompany j)) @ experienceText1
     @ escaped (JStr (jobTitle j)) @ experienceText2 @ jobStartDate j @ experienceText3
     @ escaped (JStr (jobPeriod j)) @ experienceText4
     @ concat (map (\<lambda>h. listItemOpen @ h @ listItemClose) (jobHighlights j))
     @ experienceText5"
  by (simp add: jobMarkup_def experienceText0_def experienceText1_def experienceText2_def
      experienceText3_def experienceText4_def experienceText5_def listItemOpen_def
      listItemClose_def escaped_def lit_def)

lemma runs_renderJob: "runs (renderJob (jobEntry j)) (Inr (jobMarkup j))"
  unfolding renderJob_entry jobMarkup_pieces
  by ((rule runs_bindJ_Inr, rule runs_escapeHtml)+, rule runs_returnJ)

lemma framed_escapedProp: "framed (escapedProp obj key)"
  unfolding escapedProp_def by (intro framed_bindJ framed_liftE framed_escapeHtml)

lemma framed_propOrEmpty: "framed (propOrEmpty obj key)"
  unfolding propOrEmpty_def by (rule framed_liftE)

lemma framed_renderJob: "framed (renderJob job)"
  unfolding renderJob_def
  by (intro framed_bindJ framed_liftE framed_escapedProp framed_propOrEmpty framed_returnJ)

lemma framed_renderCert: "framed (renderCert cert)"
  unfolding renderCert_def
  by (intro framed_bindJ framed_liftE framed_escapedProp framed_propOrEmpty framed_returnJ)

lemma framed_renderSkill: "framed (renderSkill entry)"
  unfolding renderSkill_def
  by (cases entry) (simp, intro framed_bindJ framed_escapeHtml framed_returnJ)

lemma framed_renderProject: "framed (renderProject project)"
  unfolding renderProject_def
  by (intro framed_bindJ framed_liftE framed_escapedProp framed_propOrEmpty framed_returnJ)

text \<open>
  A list builder's protected part: render every element, assign the joined markup, log
  what is thrown. It never throws; it leaves the markup of every node but the container
  as it was, and the container's too when rendering throws.
\<close>

lemma protected_never_throws:
  "fst (tryCatch (bindJ m (setContainer c)) (logError msg) w) = Inr ()"
  by (simp add: tryCatch_def bindJ_def setContainer_def logError_def
      split: prod.splits sum.splits)

lemma protected_assigns:
  assumes "framed m" and "runs m (Inr parts)" and "escapeCacheSound w"
  shows "innerHTML (snd (tryCatch (bindJ m (setContainer c)) (logError msg) w))
         = (innerHTML w)(c := concat parts)"
proof -
  obtain r w1 where m: "m w = (r, w1)"
    by (cases "m w")
  have r: "r = Inr parts"
    using assms(2,3) m unfolding runs_def by (metis fst_conv)
  have "touchesEscaperOnly w w1"
    using assms(1) m unfolding framed_def by (metis snd_conv)
  then have "innerHTML w1 = innerHTML w"
    by (rule touchesEscaperOnly_fields)
  then show ?thesis
    using m r by (simp add: tryCatch_def bindJ_def setContainer_def assignInnerHTML_def)
qed

section \<open>Quiet steps\<close>

lemma kept_refl: "kept w w"
  by (simp add: kept_def)

lemma kept_trans: "kept w w1 \<Longrightarrow> kept w1 w2 \<Longrightarrow> kept w w2"
  by (simp add: kept_def)

lemma quiet_refl: "quiet w w"
  by (simp add: quiet_def kept_refl)

lemma quiet_trans: "quiet w w1 \<Longrightarrow> quiet w1 w2 \<Longrightarrow> quiet w w2"
  unfolding quiet_def using kept_trans by auto

lemma quiet_kept: "quiet w w' \<Longrightarrow> kept w w'"
  by (simp add: quiet_def)

lemma quiet_getElement: "quiet w (snd (getElement sel u w))"
  by (auto simp: quiet_def kept_def reveals_def domCacheNonNull_def escapeCacheSound_def
      getElement_def emit_def Let_def split: sum.splits)

lemma quiet_emit: "e \<noteq> BodyClassAdd contentLoaded \<Longrightarrow> quiet w (emit e w)"
  by (simp add: quiet_def kept_def reveals_def domCacheNonNull_def escapeCacheSound_def
      emit_def)

lemma quiet_touches:
  assumes "touchesEscaperOnly w w'"
  shows "quiet w w'"
proof -
  have "escapeCacheSound w \<longrightarrow> escapeCacheSound w'"
    using assms unfolding touchesEscaperOnly_def by blast
  then show ?thesis
    using touchesEscaperOnly_fields [OF assms]
    by (simp add: quiet_def kept_def reveals_def domCacheNonNull_def)
qed

lemma quiet_assignInnerHTML: "quiet w (assignInnerHTML c markup w)"
  by (simp add: quiet_def kept_def reveals_def domCacheNonNull_def escapeCacheSound_def
      assignInnerHTML_def)

lemma quiet_classListRemove: "quiet w (classListRemove c cls w)"
  by (simp add: quiet_def kept_def reveals_def domCacheNonNull_def escapeCacheSound_def
      classListRemove_def)

lemma quiet_warnAndReturn: "quiet w (snd (warnAndReturn msg w))"
  by (simp add: warnAndReturn_def quiet_emit)

lemma quiet_protected:
  assumes "framed m"
  shows "quiet w (snd (tryCatch (bindJ m (setContainer c)) (logError msg) w))"
proof -
  obtain r w1 where m: "m w = (r, w1)"
    by (cases "m w")
  have "touchesEscaperOnly w w1"
    using assms m unfolding framed_def by (metis snd_conv)
  then have q: "quiet w w1"
    by (rule quiet_touches)
  show ?thesis
  proof (cases r)
    case (Inl e)
    then have "snd (tryCatch (bindJ m (setContainer c)) (logError msg) w)
               = emit (ConsoleError msg e) w1"
      using m by (simp add: tryCatch_def bindJ_def logError_def)
    then show ?thesis
      using q quiet_emit [of "ConsoleError msg e" w1] quiet_trans by simp
  next
    case (Inr parts)
    then have "snd (tryCatch (bindJ m (setContainer c)) (logError msg) w)
               = assignInnerHTML c (concat parts) w1"
      using m by (simp add: tryCatch_def bindJ_def setContainer_def)
    then show ?thesis
      using q quiet_assignInnerHTML [of w1 c "concat parts"] quiet_trans by simp
  qed
qed

lemma quiet_thrown: "quiet w (snd (tryCatch (liftE (Inl e)) (logError msg) w))"
  by (simp add: tryCatch_def liftE_def logError_def quiet_emit)

lemma bindJ_liftE_Inl: "bindJ (liftE (Inl e)) f = liftE (Inl e)"
  by (rule ext) (simp add: bindJ_def liftE_def)

lemma quietJ_buildHeaderSummary: "quietJ (buildHeaderSummary data)"
  unfolding quietJ_def
proof
  fix w
  let ?w1 = "snd (getElement (lit ''.header-summary p'') True w)"
  have q: "quiet w ?w1"
    by (rule quiet_getElement)
  have "quiet ?w1 (snd (buildHeaderSummary data w))"
    by (auto simp: buildHeaderSummary_def case_prod_beta quiet_refl quiet_emit
        intro: quiet_trans [OF quiet_assignInnerHTML quiet_classListRemove]
        split: option.splits sum.splits)
  then show "quiet w (snd (buildHeaderSummary data w))"
    using q quiet_trans by blast
qed

lemma quietJ_buildExperienceSection: "quietJ (buildExperienceSection data)"
  unfolding quietJ_def
proof
  fix w
  let ?w1 = "snd (getElement (lit ''.experience-list'') True w)"
  have f: "\<And>jobs. framed (mapJ renderJob jobs)"
    by (intro framed_mapJ framed_renderJob)
  have "quiet ?w1 (snd (buildExperienceSection data w))"
    by (auto simp: buildExperienceSection_def case_prod_beta quiet_refl quiet_warnAndReturn
        quiet_protected [OF f] split: option.splits sum.splits jsval.splits)
  then show "quiet w (snd (buildExperienceSection data w))"
    using quiet_getElement quiet_trans by blast
qed

lemma quietJ_buildEducationSection: "quietJ (buildEducationSection data)"
  unfolding quietJ_def
proof
  fix w
  let ?w1 = "snd (getElement (lit ''.education-list'') True w)"
  have f: "\<And>certs. framed (mapJ renderCert certs)"
    by (intro framed_mapJ framed_renderCert)
  have "quiet ?w1 (snd (buildEducationSection data w))"
    by (auto simp: buildEducationSection_def case_prod_beta quiet_refl quiet_warnAndReturn
        quiet_protected [OF f] split: option.splits sum.splits jsval.splits)
  then show "quiet w (snd (buildEducationSection data w))"
    using quiet_getElement quiet_trans by blast
qed

lemma quietJ_buildProjectsSection: "quietJ (buildProjectsSection data)"
  unfolding quietJ_def
proof
  fix w
  let ?w1 = "snd (getElement (lit ''.key-projects dl'') True w)"
  have f: "\<And>projects. framed (mapJ renderProject projects)"
    by (intro framed_mapJ framed_renderProject)
  have "quiet ?w1 (snd (buildProjectsSection data w))"
    by (auto simp: buildProjectsSection_def case_prod_beta quiet_refl quiet_warnAndReturn
        quiet_protected [OF f] split: option.splits sum.splits jsval.splits)
  then show "quiet w (snd (buildProjectsSection data w))"
    using quiet_getElement quiet_trans by blast
qed

lemma quiet_skills_protected:
  "quiet w (snd (tryCatch (bindJ (liftE r) (\<lambda>entries.
                   bindJ (mapJ renderSkill entries) (setContainer c))) (logError msg) w))"
proof (cases r)
  case (Inl e)
  then show ?thesis
    by (simp add: bindJ_liftE_Inl quiet_thrown)
next
  case (Inr entries)
  have "framed (mapJ renderSkill entries)"
    by (intro framed_mapJ framed_renderSkill)
  then show ?thesis
    using Inr by (simp add: bindJ_liftE_Inr quiet_protected)
qed

lemma quietJ_buildSkillsSection: "quietJ (buildSkillsSection data)"
  unfolding quietJ_def
proof
  fix w
  let ?w1 = "snd (getElement (lit ''.technical-skills dl'') True w)"
  have "quiet ?w1 (snd (buildSkillsSection data w))"
    by (auto simp: buildSkillsSection_def case_prod_beta quiet_refl quiet_warnAndReturn
        quiet_skills_protected split: option.splits sum.splits)
  then show "quiet w (snd (buildSkillsSection data w))"
    using quiet_getElement quiet_trans by blast
qed

lemma quiet_innerHTML_update: "quiet w (w\<lparr>innerHTML := markup\<rparr>)"
  by (simp add: quiet_def kept_def reveals_def domCacheNonNull_def escapeCacheSound_def)

lemma quiet_syncContactInfo: "quiet w (snd (syncContactInfo name w))"
proof -
  let ?w1 = "snd (getElement (headerSelector name) True w)"
  let ?w2 = "snd (getElement (sidebarSelector name) True ?w1)"
  have a: "quiet w ?w1" "quiet w ?w2"
    using quiet_getElement quiet_trans by blast+
  have b: "\<And>markup. quiet w (?w2\<lparr>innerHTML := markup\<rparr>)"
    using a(2) quiet_innerHTML_update quiet_trans by blast
  show ?thesis
    by (simp add: syncContactInfo_split a b split: sum.splits option.splits)
qed

lemma quiet_forEach_syncContactInfo: "quiet w (snd (forEachJ syncContactInfo names w))"
proof (induction names arbitrary: w)
  case Nil
  show ?case
    by (simp add: quiet_refl)
next
  case (Cons n names)
  obtain r w1 where 1: "syncContactInfo n w = (r, w1)"
    by (cases "syncContactInfo n w")
  have a: "quiet w w1"
    using quiet_syncContactInfo [of w n] 1 by simp
  show ?case
  proof (cases r)
    case (Inl e)
    then show ?thesis
      using 1 a by simp
  next
    case (Inr u)
    then show ?thesis
      using 1 a Cons.IH [of w1] quiet_trans by simp
  qed
qed

section \<open>Experience builder\<close>

lemma getElement_sound:
  "escapeCacheSound (snd (getElement sel u w)) = escapeCacheSound w"
  by (simp add: escapeCacheSound_def getElement_frame)

lemma mapJ_map_at: "mapJ f (map g xs) w = mapJ (\<lambda>x. f (g x)) xs w"
proof (induction xs arbitrary: w)
  case Nil
  show ?case
    by simp
next
  case (Cons a xs)
  obtain r w1 where 1: "f (g a) w = (r, w1)"
    by (cases "f (g a) w")
  show ?case
  proof (cases r)
    case (Inl e)
    then show ?thesis
      using 1 by simp
  next
    case (Inr y)
    then show ?thesis
      using 1 Cons.IH [of w1] by simp
  qed
qed

lemma mapJ_map: "mapJ f (map g xs) = mapJ (\<lambda>x. f (g x)) xs"
  by (rule ext) (rule mapJ_map_at)

lemma buildExperienceSection_list:
  assumes "fst (getElement (lit ''.experience-list'') True w) = Inr (Some c)"
    and "getProp data (lit ''experience'') = Inr (JArr jobs)"
  shows "buildExperienceSection data w =
           tryCatch (bindJ (mapJ renderJob jobs) (setContainer c))
             (logError (lit ''Error building experience section:''))
             (snd (getElement (lit ''.experience-list'') True w))"
  using assms by (simp add: buildExperienceSection_def case_prod_beta)

text \<open>
  What the builder assigns for well-formed entries: to the container, the markup of the
  entries, one \<open><li>\<close> per entry with the escaped company, title and period, and a
  sub-list in which each highlight stands in its \<open><li>\<close> as it is.
\<close>

lemma experience_markup:
  assumes "escapeCacheSound w"
    and "fst (getElement (lit ''.experience-list'') True w) = Inr (Some c)"
    and "getProp data (lit ''experience'') = Inr (JArr (map jobEntry js))"
  shows "fst (buildExperienceSection data w) = Inr ()
         \<and> innerHTML (snd (buildExperienceSection data w))
             = (innerHTML w)(c := concat (map jobMarkup js))
         \<and> buildHighlights (JArr (map JStr hs))
             = Inr (concat (map (\<lambda>h. lit ''<li>'' @ h @ lit ''</li>'') hs))"
proof -
  let ?w1 = "snd (getElement (lit ''.experience-list'') True w)"
  have eq: "buildExperienceSection data w =
              tryCatch (bindJ (mapJ renderJob (map jobEntry js)) (setContainer c))
                (logError (lit ''Error building experience section:'')) ?w1"
    using assms(2,3) by (rule buildExperienceSection_list)
  have s: "escapeCacheSound ?w1"
    using assms(1) by (simp add: getElement_sound)
  have f: "framed (mapJ renderJob (map jobEntry js))"
    by (intro framed_mapJ framed_renderJob)
  have "runs (mapJ (\<lambda>j. renderJob (jobEntry j)) js) (Inr (map jobMarkup js))"
    by (intro runs_mapJ runs_renderJob)
  then have r: "runs (mapJ renderJob (map jobEntry js)) (Inr (map jobMarkup js))"
    by (simp only: mapJ_map)
  have "innerHTML (snd (buildExperienceSection data w))
          = (innerHTML ?w1)(c := concat (map jobMarkup js))"
    unfolding eq using f r s by (rule protected_assigns)
  moreover have "fst (buildExperienceSection data w) = Inr ()"
    unfolding eq by (rule protected_never_throws)
  moreover have "buildHighlights (JArr (map JStr hs))
                   = Inr (concat (map (\<lambda>h. lit ''<li>'' @ h @ lit ''</li>'') hs))"
    by (simp add: highlights_of_texts listItemOpen_def listItemClose_def)
  ultimately show ?thesis
    by (simp only: getElement_frame simp_thms)
qed

text \<open>
  The document with the one entry of company Acme and highlight \<open>Shipped X\<close>: the
  list holds one \<open><li>\<close> with the company and a sub-list with the highlight.
\<close>

lemma acme_experience_markup:
  \<open>escapeCacheSound examplePage
   \<and> fst (getElement (lit ''.experience-list'') True examplePage) = Inr (Some 2)
   \<and> getProp acmeDocument (lit ''experience'') = Inr (JArr (map jobEntry [acme]))
   \<and> innerHTML (snd (buildExperienceSection acmeDocument examplePage)) 2
       = lit ''\<newline>        <li class="experience-position">''
       @ lit ''\<newline>          <div class="experience-header">''
       @ lit ''\<newline>            <h3 class="experience-company">Acme</h3>''
       @ lit ''\<newline>            <div class="experience-title">Engineer</div>''
       @ lit ''\<newline>            <time datetime="2020-01">2020 - 2024</time>''
       @ lit ''\<newline>          </div>''
       @ lit ''\<newline>          <ul class="sub-list">''
       @ lit ''\<newline>            <li>Shipped X</li>''
       @ lit ''\<newline>          </ul>''
       @ lit ''\<newline>        </li>''
       @ lit ''\<newline>      ''\<close>
proof -
  have a: "escapeCacheSound examplePage"
    unfolding examplePage_def by (rule freshPage_sound)
  have b: "fst (getElement (lit ''.experience-list'') True examplePage) = Inr (Some 2)"
    by (simp add: getElement_def page_simps)
  have c: "getProp acmeDocument (lit ''experience'') = Inr (JArr (map jobEntry [acme]))"
    by (simp add: acmeDocument_def lit_def)
  have d: \<open>concat (map jobMarkup [acme])
       = lit ''\<newline>        <li class="experience-position">''
       @ lit ''\<newline>          <div class="experience-header">''
       @ lit ''\<newline>            <h3 class="experience-company">Acme</h3>''
       @ lit ''\<newline>            <div class="experience-title">Engineer</div>''
       @ lit ''\<newline>            <time datetime="2020-01">2020 - 2024</time>''
       @ lit ''\<newline>          </div>''
       @ lit ''\<newline>          <ul class="sub-list">''
       @ lit ''\<newline>            <li>Shipped X</li>''
       @ lit ''\<newline>          </ul>''
       @ lit ''\<newline>        </li>''
       @ lit ''\<newline>      ''\<close>
    by (simp add: jobMarkup_def acme_def serializeText_def escapeUnit_def lit_def)
  have "innerHTML (snd (buildExperienceSection acmeDocument examplePage)) 2
          = concat (map jobMarkup [acme])"
    using experience_markup [OF a b c] by simp
  then show ?thesis
    using a b c d by simp
qed

text \<open>
  C1, at an entry the page can receive. The entry \<open>boldJob\<close> has the company
  \<open>Acme & Co\<close> and the highlight \<open><b>Led</b> a team\<close>. The company goes through the
  escaper and is rendered as \<open>Acme &amp; Co\<close>; the highlight does not: its \<open><li>\<close>
  holds the markup as it is, where the escaper would have given
  \<open>&lt;b&gt;Led&lt;/b&gt; a team\<close>.
\<close>

theorem highlights_not_escaped:
  \<open>buildHighlights (JArr [JStr boldHighlight]) = Inr (lit ''<li><b>Led</b> a team</li>'')
   \<and> fst (escapeHtml (JStr boldHighlight) examplePage) = lit ''&lt;b&gt;Led&lt;/b&gt; a team''
   \<and> buildHighlights (JArr [JStr boldHighlight])
       \<noteq> Inr (lit ''<li>'' @ fst (escapeHtml (JStr boldHighlight) examplePage) @ lit ''</li>'')
   \<and> fst (renderJob (jobEntry boldJob) examplePage)
       = Inr (lit ''\<newline>        <li class="experience-position">''
       @ lit ''\<newline>          <div class="experience-header">''
       @ lit ''\<newline>            <h3 class="experience-company">Acme &amp; Co</h3>''
       @ lit ''\<newline>            <div class="experience-title">Engineer</div>''
       @ lit ''\<newline>            <time datetime="2020-01">2020 - 2024</time>''
       @ lit ''\<newline>          </div>''
       @ lit ''\<newline>          <ul class="sub-list">''
       @ lit ''\<newline>            <li><b>Led</b> a team</li>''
       @ lit ''\<newline>          </ul>''
       @ lit ''\<newline>        </li>''
       @ lit ''\<newline>      '')\<close>
proof -
  have a: "buildHighlights (JArr [JStr boldHighlight])
             = Inr (lit ''<li><b>Led</b> a team</li>'')"
    by (simp add: buildHighlights_def bindE_def listItemOpen_def listItemClose_def
        boldHighlight_def lit_def)
  have b: "fst (escapeHtml (JStr boldHighlight) examplePage)
             = lit ''&lt;b&gt;Led&lt;/b&gt; a team''"
    by (simp add: escapeHtml_def examplePage_def freshPage_def Let_def serializeText_def
        escapeUnit_def boldHighlight_def lit_def)
  have s: "escapeCacheSound examplePage"
    unfolding examplePage_def by (rule freshPage_sound)
  have "fst (renderJob (jobEntry boldJob) examplePage) = Inr (jobMarkup boldJob)"
    using runs_renderJob [of boldJob] s unfolding runs_def by blast
  moreover have \<open>jobMarkup boldJob
       = lit ''\<newline>        <li class="experience-position">''
       @ lit ''\<newline>          <div class="experience-header">''
       @ lit ''\<newline>            <h3 class="experience-company">Acme &amp; Co</h3>''
       @ lit ''\<newline>            <div class="experience-title">Engineer</div>''
       @ lit ''\<newline>            <time datetime="2020-01">2020 - 2024</time>''
       @ lit ''\<newline>          </div>''
       @ lit ''\<newline>          <ul class="sub-list">''
       @ lit ''\<newline>            <li><b>Led</b> a team</li>''
       @ lit ''\<newline>          </ul>''
       @ lit ''\<newline>        </li>''
       @ lit ''\<newline>      ''\<close>
    by (simp add: jobMarkup_def boldJob_def boldHighlight_def serializeText_def
        escapeUnit_def lit_def)
  ultimately have c: \<open>fst (renderJob (jobEntry boldJob) examplePage)
       = Inr (lit ''\<newline>        <li class="experience-position">''
       @ lit ''\<newline>          <div class="experience-header">''
       @ lit ''\<newline>            <h3 class="experience-company">Acme &amp; Co</h3>''
       @ lit ''\<newline>            <div class="experience-title">Engineer</div>''
       @ lit ''\<newline>            <time datetime="2020-01">2020 - 2024</time>''
       @ lit ''\<newline>          </div>''
       @ lit ''\<newline>          <ul class="sub-list">''
       @ lit ''\<newline>            <li><b>Led</b> a team</li>''
       @ lit ''\<newline>          </ul>''
       @ lit ''\<newline>        </li>''
       @ lit ''\<newline>      '')\<close>
    by simp
  have d: "buildHighlights (JArr [JStr boldHighlight])
       \<noteq> Inr (lit ''<li>'' @ fst (escapeHtml (JStr boldHighlight) examplePage) @ lit ''</li>'')"
    unfolding a b by (simp add: lit_def)
  show ?thesis
    using a b c d by blast
qed

section \<open>Projects builder\<close>

lemma projectEntry_props:
  "getProp (projectEntry p) (lit ''name'') = Inr (JStr (projectName p))"
  "getProp (projectEntry p) (lit ''url'') = Inr (JStr (projectUrl p))"
  "getProp (projectEntry p) (lit ''description'') = Inr (JStr (projectDescription p))"
  by (simp_all add: projectEntry_def lit_def)

lemma renderProject_entry:
  "renderProject (projectEntry p) =
     bindJ (liftS (escapeHtml (JStr (projectUrl p)))) (\<lambda>url.
     bindJ (liftS (escapeHtml (JStr (projectName p)))) (\<lambda>name.
     bindJ (liftS (escapeHtml (JStr (projectDescription p)))) (\<lambda>description.
     returnJ (projectsText0 @ url @ projectsText1
              @ (if prefix (lit ''http'') (projectUrl p) then externalAttrs else [])
              @ projectsText2 @ name @ projectsText3 @ description @ projectsText4))))"
  by (simp add: renderProject_def escapedProp_def projectEntry_props bindE_def
      startsWithHttp_def linkAttrsOf_def bindJ_liftE_Inr)

lemma projectMarkup_pieces:
  "projectMarkup p =
     projectsText0 @ escaped (JStr (projectUrl p)) @ projectsText1
     @ (if prefix (lit ''http'') (projectUrl p) then externalAttrs else [])
     @ projectsText2 @ escaped (JStr (projectName p)) @ projectsText3
     @ escaped (JStr (projectDescription p)) @ projectsText4"
  by (simp add: projectMarkup_def projectsText0_def projectsText1_def projectsText2_def
      projectsText3_def projectsText4_def externalAttrs_def escaped_def lit_def)

lemma runs_renderProject: "runs (renderProject (projectEntry p)) (Inr (projectMarkup p))"
  unfolding renderProject_entry projectMarkup_pieces
  by ((rule runs_bindJ_Inr, rule runs_escapeHtml)+, rule runs_returnJ)

lemma buildProjectsSection_list:
  assumes "fst (getElement (lit ''.key-projects dl'') True w) = Inr (Some c)"
    and "getProp data (lit ''projects'') = Inr (JArr projects)"
  shows "buildProjectsSection data w =
           tryCatch (bindJ (mapJ renderProject projects) (setContainer c))
             (logError (lit ''Error building projects section:''))
             (snd (getElement (lit ''.key-projects dl'') True w))"
  using assms by (simp add: buildProjectsSection_def case_prod_beta)

text \<open>
  What the builder assigns for project records: to the container, the markup of the
  records, in which the attribute text follows the \<open>href\<close> when the url starts with
  \<open>http\<close>, and the name is preceded by the text \<open>github.com/\<close> whatever the url is.
\<close>

lemma projects_markup:
  assumes "escapeCacheSound w"
    and "fst (getElement (lit ''.key-projects dl'') True w) = Inr (Some c)"
    and "getProp data (lit ''projects'') = Inr (JArr (map projectEntry ps))"
  shows "fst (buildProjectsSection data w) = Inr ()
         \<and> innerHTML (snd (buildProjectsSection data w))
             = (innerHTML w)(c := concat (map projectMarkup ps))"
proof -
  let ?w1 = "snd (getElement (lit ''.key-projects dl'') True w)"
  have eq: "buildProjectsSection data w =
              tryCatch (bindJ (mapJ renderProject (map projectEntry ps)) (setContainer c))
                (logError (lit ''Error building projects section:'')) ?w1"
    using assms(2,3) by (rule buildProjectsSection_list)
  have s: "escapeCacheSound ?w1"
    using assms(1) by (simp add: getElement_sound)
  have f: "framed (mapJ renderProject (map projectEntry ps))"
    by (intro framed_mapJ framed_renderProject)
  have "runs (mapJ (\<lambda>p. renderProject (projectEntry p)) ps) (Inr (map projectMarkup ps))"
    by (intro runs_mapJ runs_renderProject)
  then have r: "runs (mapJ renderProject (map projectEntry ps)) (Inr (map projectMarkup ps))"
    by (simp only: mapJ_map)
  have "innerHTML (snd (buildProjectsSection data w))
          = (innerHTML ?w1)(c := concat (map projectMarkup ps))"
    unfolding eq using f r s by (rule protected_assigns)
  moreover have "fst (buildProjectsSection data w) = Inr ()"
    unfolding eq by (rule protected_never_throws)
  ultimately show ?thesis
    by (simp only: getElement_frame simp_thms)
qed

text \<open>The two projects of the example document, with an https and a mailto url.\<close>

lemma example_projects_markup:
  \<open>prefix (lit ''http'') (projectUrl repoProject)
   \<and> \<not> prefix (lit ''http'') (projectUrl mailProject)
   \<and> innerHTML (snd (buildProjectsSection acmeDocument examplePage)) 5
       = lit ''\<newline>        <dt>''
       @ lit ''\<newline>          <a href="https://github.com/me/repo" target="_blank" rel="noopener">''
       @ lit ''\<newline>            <span class="github-prefix">github.com/</span>me/repo''
       @ lit ''\<newline>          </a>''
       @ lit ''\<newline>        </dt>''
       @ lit ''\<newline>        <dd>A tool</dd>''
       @ lit ''\<newline>      ''
       @ lit ''\<newline>        <dt>''
       @ lit ''\<newline>          <a href="mailto:me@x.com" >''
       @ lit ''\<newline>            <span class="github-prefix">github.com/</span>mail''
       @ lit ''\<newline>          </a>''
       @ lit ''\<newline>        </dt>''
       @ lit ''\<newline>        <dd>Write to me</dd>''
       @ lit ''\<newline>      ''\<close>
proof -
  have a: "escapeCacheSound examplePage"
    unfolding examplePage_def by (rule freshPage_sound)
  have b: "fst (getElement (lit ''.key-projects dl'') True examplePage) = Inr (Some 5)"
    by (simp add: getElement_def page_simps)
  have c: "getProp acmeDocument (lit ''projects'')
             = Inr (JArr (map projectEntry [repoProject, mailProject]))"
    by (simp add: acmeDocument_def lit_def)
  have d: \<open>projectMarkup repoProject
       = lit ''\<newline>        <dt>''
       @ lit ''\<newline>          <a href="https://github.com/me/repo" target="_blank" rel="noopener">''
       @ lit ''\<newline>            <span class="github-prefix">github.com/</span>me/repo''
       @ lit ''\<newline>          </a>''
       @ lit ''\<newline>        </dt>''
       @ lit ''\<newline>        <dd>A tool</dd>''
       @ lit ''\<newline>      ''\<close>
    by (simp add: projectMarkup_def repoProject_def serializeText_def escapeUnit_def lit_def)
  have e: \<open>projectMarkup mailProject
       = lit ''\<newline>        <dt>''
       @ lit ''\<newline>          <a href="mailto:me@x.com" >''
       @ lit ''\<newline>            <span class="github-prefix">github.com/</span>mail''
       @ lit ''\<newline>          </a>''
       @ lit ''\<newline>        </dt>''
       @ lit ''\<newline>        <dd>Write to me</dd>''
       @ lit ''\<newline>      ''\<close>
    by (simp add: projectMarkup_def mailProject_def serializeText_def escapeUnit_def lit_def)
  have f: "prefix (lit ''http'') (projectUrl repoProject)
           \<and> \<not> prefix (lit ''http'') (projectUrl mailProject)"
    by (simp add: repoProject_def mailProject_def lit_def)
  have "innerHTML (snd (buildProjectsSection acmeDocument examplePage)) 5
          = projectMarkup repoProject @ projectMarkup mailProject"
    using projects_markup [OF a b c] by simp
  then show ?thesis
    unfolding d e using f by simp
qed

text \<open>
  C6, at a project the page can receive. The url of \<open>quoteProject\<close> does not start
  with \<open>http\<close> and has a double quote in it. The escaper, which serializes text, leaves
  a double quote as it is, so inside \<open>href="..."\<close> the quote ends the attribute value:
  the opening tag of the rendered link is \<open><a href="x" target="_blank" rel="noopener" >\<close>,
  with both attributes, for a url that is not external.
\<close>

theorem link_attributes_injected:
  \<open>\<not> prefix (lit ''http'') (projectUrl quoteProject)
   \<and> fst (escapeHtml (JStr (projectUrl quoteProject)) examplePage) = projectUrl quoteProject
   \<and> fst (renderProject (projectEntry quoteProject) examplePage)
       = Inr (lit ''\<newline>        <dt>''
       @ lit ''\<newline>          <a href="x" target="_blank" rel="noopener" >''
       @ lit ''\<newline>            <span class="github-prefix">github.com/</span>quote''
       @ lit ''\<newline>          </a>''
       @ lit ''\<newline>        </dt>''
       @ lit ''\<newline>        <dd>A link</dd>''
       @ lit ''\<newline>      '')\<close>
proof -
  have a: "\<not> prefix (lit ''http'') (projectUrl quoteProject)"
    by (simp add: quoteProject_def lit_def)
  have b: "fst (escapeHtml (JStr (projectUrl quoteProject)) examplePage)
           = projectUrl quoteProject"
    by (simp add: escapeHtml_def examplePage_def freshPage_def Let_def serializeText_def
        escapeUnit_def quoteProject_def lit_def)
  have s: "escapeCacheSound examplePage"
    unfolding examplePage_def by (rule freshPage_sound)
  have "fst (renderProject (projectEntry quoteProject) examplePage)
          = Inr (projectMarkup quoteProject)"
    using runs_renderProject [of quoteProject] s unfolding runs_def by blast
  moreover have \<open>projectMarkup quoteProject
       = lit ''\<newline>        <dt>''
       @ lit ''\<newline>          <a href="x" target="_blank" rel="noopener" >''
       @ lit ''\<newline>            <span class="github-prefix">github.com/</span>quote''
       @ lit ''\<newline>          </a>''
       @ lit ''\<newline>        </dt>''
       @ lit ''\<newline>        <dd>A link</dd>''
       @ lit ''\<newline>      ''\<close>
    by (simp add: projectMarkup_def quoteProject_def serializeText_def escapeUnit_def lit_def)
  ultimately have c: \<open>fst (renderProject (projectEntry quoteProject) examplePage)
       = Inr (lit ''\<newline>        <dt>''
       @ lit ''\<newline>          <a href="x" target="_blank" rel="noopener" >''
       @ lit ''\<newline>            <span class="github-prefix">github.com/</span>quote''
       @ lit ''\<newline>          </a>''
       @ lit ''\<newline>        </dt>''
       @ lit ''\<newline>        <dd>A link</dd>''
       @ lit ''\<newline>      '')\<close>
    by simp
  show ?thesis
    using a b c by blast
qed

section \<open>Failure boundaries of the builders\<close>

lemma getProp_total: "\<not> nullish data \<Longrightarrow> \<exists>v. getProp data k = Inr v"
  by (cases data) simp_all

lemma getProp_not_nullish: "getProp data k = Inr v \<Longrightarrow> \<not> nullish data"
  by (cases data) simp_all

lemma tryCatch_logError_fst: "fst (tryCatch m (logError msg) w) = Inr ()"
  by (simp add: tryCatch_def logError_def split: prod.splits sum.splits)

lemma bindJ_Inr: "fst (m w) = Inr x \<Longrightarrow> bindJ m f w = f x (snd (m w))"
  by (cases "m w") (simp add: bindJ_def)

lemma bindJ_Inl: "fst (m w) = Inl e \<Longrightarrow> bindJ m f w = (Inl e, snd (m w))"
  by (cases "m w") (simp add: bindJ_def)

lemma quiet_answers: "quiet w w' \<Longrightarrow> answers w' sel = answers w sel"
  by (simp add: quiet_def kept_def answers_def)

text \<open>
  On a page whose document answers the container's selector, and for a document that is
  not \<open>null\<close>, each of the four list builders completes without an exception.
\<close>

lemma buildExperienceSection_never_throws:
  assumes "\<not> nullish data" and "answers w (lit ''.experience-list'')"
  shows "fst (buildExperienceSection data w) = Inr ()"
proof -
  obtain v where "getProp data (lit ''experience'') = Inr v"
    using assms(1) getProp_total by blast
  moreover obtain c where "fst (getElement (lit ''.experience-list'') True w) = Inr c"
    using assms(2) getElement_answered by blast
  ultimately show ?thesis
    by (cases v)
      (simp_all add: buildExperienceSection_def case_prod_beta warnAndReturn_def
        tryCatch_logError_fst split: option.splits)
qed

lemma buildEducationSection_never_throws:
  assumes "\<not> nullish data" and "answers w (lit ''.education-list'')"
  shows "fst (buildEducationSection data w) = Inr ()"
proof -
  obtain v where "getProp data (lit ''education'') = Inr v"
    using assms(1) getProp_total by blast
  moreover obtain c where "fst (getElement (lit ''.education-list'') True w) = Inr c"
    using assms(2) getElement_answered by blast
  ultimately show ?thesis
    by (cases v)
      (simp_all add: buildEducationSection_def case_prod_beta warnAndReturn_def
        tryCatch_logError_fst split: option.splits)
qed

lemma buildSkillsSection_never_throws:
  assumes "\<not> nullish data" and "answers w (lit ''.technical-skills dl'')"
  shows "fst (buildSkillsSection data w) = Inr ()"
proof -
  obtain v where "getProp data (lit ''technicalSkills'') = Inr v"
    using assms(1) getProp_total by blast
  moreover obtain c where "fst (getElement (lit ''.technical-skills dl'') True w) = Inr c"
    using assms(2) getElement_answered by blast
  ultimately show ?thesis
    by (simp add: buildSkillsSection_def case_prod_beta warnAndReturn_def
        tryCatch_logError_fst split: option.splits)
qed

lemma buildProjectsSection_never_throws:
  assumes "\<not> nullish data" and "answers w (lit ''.key-projects dl'')"
  shows "fst (buildProjectsSection data w) = Inr ()"
proof -
  obtain v where "getProp data (lit ''projects'') = Inr v"
    using assms(1) getProp_total by blast
  moreover obtain c where "fst (getElement (lit ''.key-projects dl'') True w) = Inr c"
    using assms(2) getElement_answered by blast
  ultimately show ?thesis
    by (cases v)
      (simp_all add: buildProjectsSection_def case_prod_beta warnAndReturn_def
        tryCatch_logError_fst split: option.splits)
qed

lemma buildSections_after_summary:
  assumes "\<not> nullish data" and "fst (buildHeaderSummary data w) = Inr ()"
    and "answersContainers w"
  shows "buildSections data w =
           revealAndReport
             (snd (buildProjectsSection data
               (snd (buildSkillsSection data
                 (snd (buildEducationSection data
                   (snd (buildExperienceSection data
                     (snd (buildHeaderSummary data w))))))))))"
proof -
  let ?w1 = "snd (buildHeaderSummary data w)"
  let ?w2 = "snd (buildExperienceSection data ?w1)"
  let ?w3 = "snd (buildEducationSection data ?w2)"
  let ?w4 = "snd (buildSkillsSection data ?w3)"
  have q: "quiet w ?w1" "quiet ?w1 ?w2" "quiet ?w2 ?w3" "quiet ?w3 ?w4"
    using quietJ_buildHeaderSummary quietJ_buildExperienceSection
      quietJ_buildEducationSection quietJ_buildSkillsSection
    unfolding quietJ_def by blast+
  have a: "answers w (lit ''.experience-list'')" "answers w (lit ''.education-list'')"
    "answers w (lit ''.technical-skills dl'')" "answers w (lit ''.key-projects dl'')"
    using assms(3) by (simp_all add: answersContainers_def containerSelectors_def)
  have "answers ?w1 (lit ''.experience-list'')" "answers ?w2 (lit ''.education-list'')"
    "answers ?w3 (lit ''.technical-skills dl'')" "answers ?w4 (lit ''.key-projects dl'')"
    using a q by (simp_all add: quiet_answers)
  then have "fst (buildExperienceSection data ?w1) = Inr ()"
    "fst (buildEducationSection data ?w2) = Inr ()"
    "fst (buildSkillsSection data ?w3) = Inr ()"
    "fst (buildProjectsSection data ?w4) = Inr ()"
    using assms(1)
    by (simp_all add: buildExperienceSection_never_throws buildEducationSection_never_throws
        buildSkillsSection_never_throws buildProjectsSection_never_throws)
  then show ?thesis
    unfolding buildSections_def using assms(2) by (simp add: bindJ_Inr)
qed

text \<open>
  The Experience Builder on an experience that is not a list, on a page that answers
  its selector: it completes without an exception, logs its warning after the lookup of
  its container, and leaves the markup and the classes of every node as they were. Once
  the summary builder has completed, the education, skills and projects builders run
  after the experience builder, and the page is revealed.
\<close>

lemma experience_not_a_list:
  assumes "getProp data (lit ''experience'') = Inr v" and "\<forall>jobs. v \<noteq> JArr jobs"
    and "answers w (lit ''.experience-list'')"
  shows "fst (buildExperienceSection data w) = Inr ()
         \<and> innerHTML (snd (buildExperienceSection data w)) = innerHTML w
         \<and> classList (snd (buildExperienceSection data w)) = classList w
         \<and> trace (snd (buildExperienceSection data w))
             = trace (snd (getElement (lit ''.experience-list'') True w))
               @ [ConsoleWarn (lit ''Experience container not found or invalid data'')]"
proof -
  obtain c where c: "fst (getElement (lit ''.experience-list'') True w) = Inr c"
    using assms(3) getElement_answered by blast
  have b: "buildExperienceSection data w =
             (Inr (), emit (ConsoleWarn (lit ''Experience container not found or invalid data''))
                        (snd (getElement (lit ''.experience-list'') True w)))"
    using assms(1,2) c
    by (cases v)
      (simp_all add: buildExperienceSection_def case_prod_beta warnAndReturn_def
        split: option.splits)
  show ?thesis
    by (simp add: b emit_def getElement_frame)
qed

lemmas builder_defs =
  buildSections_def buildHeaderSummary_def buildExperienceSection_def
  buildEducationSection_def buildSkillsSection_def buildProjectsSection_def
  revealAndReport_def personalSummary_def toMarkup_def classListRemove_def
  assignInnerHTML_def bodyClassListAdd_def warnAndReturn_def logError_def setContainer_def
  renderProject_def renderSkill_def renderCert_def renderJob_def escapedProp_def
  propOrEmpty_def startsWithHttp_def linkAttrsOf_def buildHighlights_def
  bindJ_def bindE_def liftE_def liftS_def returnJ_def tryCatch_def
  getElement_def escapeHtml_def serializeText_def escapeUnit_def contentLoaded_def

lemmas init_defs =
  pageLoad_def onDOMContentLoaded_def initPortfolioContent_def loadPortfolioData_def
  validateData_def required_def requestAnimationFrame_def syncContactInfo_def
  contactTypes_def

text \<open>
  With the summary a text: the experience container keeps its placeholder, the warning
  is logged, the projects are rendered and the page is revealed.
\<close>

lemma looseDocument_builds:
  "trace (snd (buildExperienceSection looseDocument examplePage))
     = [Query (lit ''.experience-list''),
        ConsoleWarn (lit ''Experience container not found or invalid data'')]
   \<and> fst (buildSections looseDocument examplePage) = Inr ()
   \<and> innerHTML (snd (buildSections looseDocument examplePage)) 2 = lit ''Loading...''
   \<and> innerHTML (snd (buildSections looseDocument examplePage)) 5 = projectMarkup repoProject
   \<and> bodyClassList (snd (buildSections looseDocument examplePage)) = [contentLoaded]"
proof -
  have a: "getProp looseDocument (lit ''experience'') = Inr (JStr (lit ''none yet''))"
    by (simp add: looseDocument_def lit_def)
  have b: "\<forall>jobs. JStr (lit ''none yet'') \<noteq> JArr jobs"
    by simp
  have c: "answers examplePage (lit ''.experience-list'')"
    by (simp add: answers_def page_simps)
  have d: "trace (snd (getElement (lit ''.experience-list'') True examplePage))
           = [Query (lit ''.experience-list'')]"
    by (simp add: getElement_def page_simps)
  have f: "innerHTML (snd (buildSections looseDocument examplePage)) 2 = lit ''Loading...''"
    by (simp add: builder_defs page_simps looseDocument_def projectEntry_def repoProject_def)
  have g: "innerHTML (snd (buildSections looseDocument examplePage)) 5
           = projectMarkup repoProject"
    by (simp add: builder_defs page_simps looseDocument_def projectEntry_def repoProject_def
        projectMarkup_def projectsText0_def projectsText1_def projectsText2_def
        projectsText3_def projectsText4_def externalAttrs_def)
  have h: "bodyClassList (snd (buildSections looseDocument examplePage)) = [contentLoaded]"
    by (simp add: builder_defs page_simps looseDocument_def projectEntry_def repoProject_def)
  have i: "fst (buildSections looseDocument examplePage) = Inr ()"
    by (simp add: builder_defs page_simps looseDocument_def projectEntry_def repoProject_def)
  show ?thesis
    using experience_not_a_list [OF a b c] d f g h i by simp
qed

text \<open>
  C7, at a document the page can receive. \<open>trapLoose\<close> passes validation, its
  experience is a text and not a list, and its summary cannot be converted to a string.
  The summary builder, which runs first and has no failure boundary, throws: the
  callback ends before the Experience Builder is called, so no warning is logged, and
  none of the builders after it runs; the projects container keeps its placeholder.
\<close>

theorem experience_warning_never_logged:
  "validateData trapLoose = Inr ()
   \<and> getProp trapLoose (lit ''experience'') = Inr (JStr (lit ''none yet''))
   \<and> fst (buildSections trapLoose examplePage) = Inl TypeError
   \<and> trace (snd (buildSections trapLoose examplePage)) = [Query (lit ''.header-summary p'')]
   \<and> ConsoleWarn (lit ''Experience container not found or invalid data'')
       \<notin> set (trace (pageLoad (Response 200 (Some trapLoose)) examplePage))
   \<and> innerHTML (pageLoad (Response 200 (Some trapLoose)) examplePage) 5 = lit ''Loading...''"
proof -
  have a: "validateData trapLoose = Inr ()"
    by (simp add: validateData_def required_def bindE_def trapLoose_def lit_def)
  have b: "getProp trapLoose (lit ''experience'') = Inr (JStr (lit ''none yet''))"
    by (simp add: trapLoose_def lit_def)
  have c: "buildHeaderSummary trapLoose examplePage
           = (Inl TypeError, snd (getElement (lit ''.header-summary p'') True examplePage))"
    by (simp add: builder_defs page_simps trapLoose_def)
  have d: "buildSections trapLoose examplePage
           = (Inl TypeError, snd (getElement (lit ''.header-summary p'') True examplePage))"
    unfolding buildSections_def using c by (simp add: bindJ_Inl)
  have e: "trace (snd (getElement (lit ''.header-summary p'') True examplePage))
           = [Query (lit ''.header-summary p'')]"
    by (simp add: getElement_def page_simps)
  have f: "trace (pageLoad (Response 200 (Some trapLoose)) examplePage)
           = [Query (headerSelector (lit ''contact-location'')),
              Query (sidebarSelector (lit ''contact-location'')),
              Query (headerSelector (lit ''contact-email'')),
              Query (sidebarSelector (lit ''contact-email'')),
              Query (headerSelector (lit ''contact-github'')),
              Query (sidebarSelector (lit ''contact-github'')),
              Query (headerSelector (lit ''contact-linkedin'')),
              Query (sidebarSelector (lit ''contact-linkedin'')),
              Query (headerSelector (lit ''contact-pdf'')),
              Query (sidebarSelector (lit ''contact-pdf'')),
              Query (lit ''.header-summary p''),
              Uncaught TypeError]"
    by (simp add: init_defs builder_defs page_simps trapLoose_def)
  have g: "innerHTML (pageLoad (Response 200 (Some trapLoose)) examplePage) 5
           = lit ''Loading...''"
    by (simp add: init_defs builder_defs page_simps trapLoose_def)
  show ?thesis
    unfolding f using a b e g by (simp add: d)
qed

section \<open>The summary builder has no failure boundary\<close>

text \<open>
  C2, at a document the page can receive. The summary of \<open>trapDocument\<close> is an object
  that cannot be converted to a string, so assigning it as markup throws a TypeError.
  The summary builder does not catch it: the callback ends there, the experience and
  projects containers keep their placeholder although their data is well formed, and
  the only trace of the callback is the lookup of the summary container.
\<close>

theorem summary_exception_escapes:
  "validateData trapDocument = Inr ()
   \<and> fst (buildHeaderSummary trapDocument examplePage) = Inl TypeError
   \<and> fst (buildSections trapDocument examplePage) = Inl TypeError
   \<and> innerHTML (snd (buildSections trapDocument examplePage)) 2 = lit ''Loading...''
   \<and> innerHTML (snd (buildSections trapDocument examplePage)) 5 = lit ''Loading...''
   \<and> trace (snd (buildSections trapDocument examplePage)) = [Query (lit ''.header-summary p'')]"
proof -
  have a: "validateData trapDocument = Inr ()"
    by (simp add: validateData_def required_def bindE_def trapDocument_def lit_def)
  have b: "buildHeaderSummary trapDocument examplePage
           = (Inl TypeError, snd (getElement (lit ''.header-summary p'') True examplePage))"
    by (simp add: builder_defs page_simps trapDocument_def)
  have c: "buildSections trapDocument examplePage
           = (Inl TypeError, snd (getElement (lit ''.header-summary p'') True examplePage))"
    unfolding buildSections_def using b by (simp add: bindJ_Inl)
  have d: "trace (snd (getElement (lit ''.header-summary p'') True examplePage))
           = [Query (lit ''.header-summary p'')]"
    by (simp add: getElement_def page_simps)
  have e: "innerHTML examplePage 2 = lit ''Loading...''"
          "innerHTML examplePage 5 = lit ''Loading...''"
    by (simp_all add: examplePage_def freshPage_def)
  show ?thesis
    using a d e by (simp add: b c getElement_frame)
qed

section \<open>Revealing the page\<close>

text \<open>
  C3, at the same document. The fetch succeeds and the document passes validation, the
  exception of the summary builder ends the callback before the class is added, and
  nothing else adds it: after the page load no frame is pending, the body has no class
  and the trace has no class addition.
\<close>

theorem content_loaded_never_added:
  "loadPortfolioData (Response 200 (Some trapDocument)) = Inr trapDocument
   \<and> validateData trapDocument = Inr ()
   \<and> frames (pageLoad (Response 200 (Some trapDocument)) examplePage) = []
   \<and> bodyClassList (pageLoad (Response 200 (Some trapDocument)) examplePage) = []
   \<and> BodyClassAdd contentLoaded
       \<notin> set (trace (pageLoad (Response 200 (Some trapDocument)) examplePage))
   \<and> last (trace (pageLoad (Response 200 (Some trapDocument)) examplePage))
       = Uncaught TypeError"
proof -
  have a: "loadPortfolioData (Response 200 (Some trapDocument)) = Inr trapDocument"
    by (simp add: loadPortfolioData_def)
  have b: "validateData trapDocument = Inr ()"
    by (simp add: validateData_def required_def bindE_def trapDocument_def lit_def)
  have c: "frames (pageLoad (Response 200 (Some trapDocument)) examplePage) = []"
    by (simp add: init_defs builder_defs page_simps trapDocument_def)
  have d: "bodyClassList (pageLoad (Response 200 (Some trapDocument)) examplePage) = []"
    by (simp add: init_defs builder_defs page_simps trapDocument_def)
  have e: "trace (pageLoad (Response 200 (Some trapDocument)) examplePage)
           = [Query (headerSelector (lit ''contact-location'')),
              Query (sidebarSelector (lit ''contact-location'')),
              Query (headerSelector (lit ''contact-email'')),
              Query (sidebarSelector (lit ''contact-email'')),
              Query (headerSelector (lit ''contact-github'')),
              Query (sidebarSelector (lit ''contact-github'')),
              Query (headerSelector (lit ''contact-linkedin'')),
              Query (sidebarSelector (lit ''contact-linkedin'')),
              Query (headerSelector (lit ''contact-pdf'')),
              Query (sidebarSelector (lit ''contact-pdf'')),
              Query (lit ''.header-summary p''),
              Uncaught TypeError]"
    by (simp add: init_defs builder_defs page_simps trapDocument_def)
  show ?thesis
    unfolding e using a b c d by simp
qed

section \<open>What a page load keeps\<close>

lemma quietJ_keptJ: "quietJ m \<Longrightarrow> keptJ m"
  by (simp add: quietJ_def keptJ_def quiet_kept)

lemma keptJ_bindJ:
  assumes "keptJ m" and "\<And>x. keptJ (f x)"
  shows "keptJ (bindJ m f)"
  unfolding keptJ_def
proof
  fix w
  obtain r w1 where m: "m w = (r, w1)"
    by (cases "m w")
  have a: "kept w w1"
    using assms(1) m unfolding keptJ_def by (metis snd_conv)
  show "kept w (snd (bindJ m f w))"
  proof (cases r)
    case (Inl e)
    then show ?thesis
      using a m by (simp add: bindJ_def)
  next
    case (Inr x)
    have "kept w1 (snd (f x w1))"
      using assms(2) unfolding keptJ_def by blast
    then show ?thesis
      using a m Inr kept_trans by (simp add: bindJ_def)
  qed
qed

lemma keptJ_revealAndReport: "keptJ revealAndReport"
  by (simp add: keptJ_def kept_def revealAndReport_def bodyClassListAdd_def emit_def
      domCacheNonNull_def escapeCacheSound_def)

lemma keptJ_buildSections: "keptJ (buildSections data)"
  unfolding buildSections_def
  by (intro keptJ_bindJ quietJ_keptJ quietJ_buildHeaderSummary quietJ_buildExperienceSection
      quietJ_buildEducationSection quietJ_buildSkillsSection quietJ_buildProjectsSection
      keptJ_revealAndReport)

lemma kept_runCallback: "kept w (snd (runCallback t w))"
proof (cases t)
  case SyncContacts
  then show ?thesis
    by (simp add: quiet_kept quiet_forEach_syncContactInfo)
next
  case (BuildSections data)
  then show ?thesis
    using keptJ_buildSections unfolding keptJ_def by simp
qed

lemma kept_emit: "kept w (emit e w)"
  by (simp add: kept_def emit_def domCacheNonNull_def escapeCacheSound_def)

lemma kept_runFrames: "kept w (runFrames ts w)"
proof (induction ts arbitrary: w)
  case Nil
  show ?case
    by (simp add: kept_refl)
next
  case (Cons t ts)
  obtain r w1 where t: "runCallback t w = (r, w1)"
    by (cases "runCallback t w")
  have a: "kept w w1"
    using kept_runCallback [of w t] t by simp
  have "kept w (case r of Inl e \<Rightarrow> emit (Uncaught e) w1 | Inr u \<Rightarrow> w1)"
    using a kept_emit kept_trans by (cases r) auto
  then show ?case
    using t Cons.IH kept_trans by (cases r) auto
qed

lemma kept_onDOMContentLoaded: "kept w (onDOMContentLoaded r w)"
  by (simp add: kept_def onDOMContentLoaded_def initPortfolioContent_def
      requestAnimationFrame_def bodyClassListAdd_def emit_def domCacheNonNull_def
      escapeCacheSound_def split: sum.splits)

text \<open>
  A whole page load keeps both caches in their invariants: no selector cached with an
  absent node, no text cached with anything but its serialization.
\<close>

lemma kept_pageLoad: "kept w (pageLoad r w)"
proof -
  let ?w1 = "onDOMContentLoaded r w"
  have "kept ?w1 (?w1\<lparr>frames := []\<rparr>)"
    by (simp add: kept_def domCacheNonNull_def escapeCacheSound_def)
  then have "kept w (?w1\<lparr>frames := []\<rparr>)"
    using kept_onDOMContentLoaded kept_trans by blast
  then show ?thesis
    unfolding pageLoad_def Let_def using kept_runFrames kept_trans by blast
qed

lemma pageLoad_keeps_caches:
  "domCacheNonNull w \<Longrightarrow> domCacheNonNull (pageLoad r w)"
  "escapeCacheSound w \<Longrightarrow> escapeCacheSound (pageLoad r w)"
  using kept_pageLoad [of w r] by (simp_all add: kept_def)

section \<open>Revealing the page: when the class is added\<close>

lemma validateData_not_nullish: "validateData data = Inr () \<Longrightarrow> \<not> nullish data"
  by (cases data) (simp_all add: validateData_def required_def bindE_def)

lemma reveal_step:
  "reveals (snd (revealAndReport w)) = reveals w + 1"
  "contentLoaded \<in> set (bodyClassList (snd (revealAndReport w)))"
  by (simp_all add: revealAndReport_def bodyClassListAdd_def emit_def reveals_def)

lemma buildSections_reveals:
  assumes "\<not> nullish data" and "fst (buildHeaderSummary data w) = Inr ()"
    and "answersContainers w"
  shows "fst (buildSections data w) = Inr ()"
    and "reveals (snd (buildSections data w)) = reveals w + 1"
    and "contentLoaded \<in> set (bodyClassList (snd (buildSections data w)))"
proof -
  let ?w1 = "snd (buildHeaderSummary data w)"
  let ?w2 = "snd (buildExperienceSection data ?w1)"
  let ?w3 = "snd (buildEducationSection data ?w2)"
  let ?w4 = "snd (buildSkillsSection data ?w3)"
  let ?w5 = "snd (buildProjectsSection data ?w4)"
  have eq: "buildSections data w = revealAndReport ?w5"
    using assms by (rule buildSections_after_summary)
  have "quiet w ?w1" "quiet ?w1 ?w2" "quiet ?w2 ?w3" "quiet ?w3 ?w4" "quiet ?w4 ?w5"
    using quietJ_buildHeaderSummary quietJ_buildExperienceSection
      quietJ_buildEducationSection quietJ_buildSkillsSection quietJ_buildProjectsSection
    unfolding quietJ_def by blast+
  then have "reveals ?w5 = reveals w"
    by (simp add: quiet_def)
  then show "reveals (snd (buildSections data w)) = reveals w + 1"
    unfolding eq by (simp add: reveal_step)
  show "fst (buildSections data w) = Inr ()"
    unfolding eq by (simp add: revealAndReport_def)
  show "contentLoaded \<in> set (bodyClassList (snd (buildSections data w)))"
    unfolding eq by (rule reveal_step)
qed

lemma frames_reset: "frames w = [] \<Longrightarrow> w\<lparr>frames := []\<rparr> = w"
  by (cases w) simp

text \<open>The frame of the contact synchronization, whether it completes or throws.\<close>

lemma quiet_contacts_frame: "quiet w (runFrames [SyncContacts] w)"
proof -
  obtain r w1 where 1: "forEachJ syncContactInfo contactTypes w = (r, w1)"
    by (cases "forEachJ syncContactInfo contactTypes w")
  have a: "quiet w w1"
    using quiet_forEach_syncContactInfo [of w contactTypes] 1 by simp
  show ?thesis
  proof (cases r)
    case (Inl e)
    then show ?thesis
      using 1 a quiet_emit [of "Uncaught e" w1] quiet_trans by simp
  next
    case (Inr u)
    then show ?thesis
      using 1 a by simp
  qed
qed

lemma quiet_answersContainers:
  assumes "quiet w w'"
  shows "answersContainers w' = answersContainers w"
proof -
  have "answers w' = answers w"
    using assms by (intro ext) (rule quiet_answers)
  then show ?thesis
    by (simp add: answersContainers_def)
qed

text \<open>
  What holds of the reveal on the code. On a page with nothing queued, when loading or
  validation fails the class is added once, by the fallback; when they succeed, the
  document answers the selectors of the five containers and the summary builder does
  not throw, it is added once, by the callback. In both cases the body has the class
  afterwards.
\<close>

lemma pageLoad_reveals_once:
  assumes "frames w = []" and "answersContainers w"
    and "\<forall>data. bindE (loadPortfolioData r) (\<lambda>data. bindE (validateData data) (\<lambda>_. Inr data))
                  = Inr data
                \<longrightarrow> (\<forall>w'. answersContainers w' \<longrightarrow> fst (buildHeaderSummary data w') = Inr ())"
  shows "reveals (pageLoad r w) = reveals w + 1
         \<and> contentLoaded \<in> set (bodyClassList (pageLoad r w))"
proof (cases "bindE (loadPortfolioData r) (\<lambda>data. bindE (validateData data) (\<lambda>_. Inr data))")
  case (Inl e)
  let ?w1 = "bodyClassListAdd contentLoaded
               (emit (ConsoleError (lit ''Failed to load dynamic content:'') e) w)"
  have p: "pageLoad r w = runFrames [SyncContacts] ?w1"
    using Inl assms(1)
    by (simp add: pageLoad_def onDOMContentLoaded_def initPortfolioContent_def
        requestAnimationFrame_def bodyClassListAdd_def emit_def frames_reset)
  have a: "reveals ?w1 = reveals w + 1" "contentLoaded \<in> set (bodyClassList ?w1)"
    by (simp_all add: bodyClassListAdd_def emit_def reveals_def)
  have "quiet ?w1 (runFrames [SyncContacts] ?w1)"
    by (rule quiet_contacts_frame)
  then show ?thesis
    unfolding p using a by (simp add: quiet_def)
next
  case (Inr d)
  have v: "validateData d = Inr ()"
    using Inr by (auto simp: bindE_def split: sum.splits)
  then have n: "\<not> nullish d"
    by (rule validateData_not_nullish)
  let ?w1 = "runFrames [SyncContacts] w"
  have q: "quiet w ?w1"
    by (rule quiet_contacts_frame)
  have p: "pageLoad r w = runFrames [BuildSections d] ?w1"
    using Inr assms(1)
    by (simp add: pageLoad_def onDOMContentLoaded_def initPortfolioContent_def
        requestAnimationFrame_def frames_reset)
  have c: "answersContainers ?w1"
    using q assms(2) by (simp add: quiet_answersContainers)
  then have s: "fst (buildHeaderSummary d ?w1) = Inr ()"
    using assms(3) Inr by blast
  have b: "fst (buildSections d ?w1) = Inr ()"
    "reveals (snd (buildSections d ?w1)) = reveals ?w1 + 1"
    "contentLoaded \<in> set (bodyClassList (snd (buildSections d ?w1)))"
    using buildSections_reveals [OF n s c] by blast+
  have "runFrames [BuildSections d] ?w1 = snd (buildSections d ?w1)"
    using b(1) by (cases "buildSections d ?w1") simp
  then show ?thesis
    unfolding p using b q by (simp add: quiet_def)
qed

lemma buildHeaderSummary_text:
  assumes "getProp data (lit ''personal'') = Inr p"
    and "getProp p (lit ''summary'') = Inr (JStr s)"
    and "answersContainers w"
  shows "fst (buildHeaderSummary data w) = Inr ()"
proof -
  have "\<not> nullish p"
    using assms(2) by (rule getProp_not_nullish)
  moreover have "answers w (lit ''.header-summary p'')"
    using assms(3) by (simp add: answersContainers_def containerSelectors_def)
  then obtain c where "fst (getElement (lit ''.header-summary p'') True w) = Inr c"
    using getElement_answered by blast
  ultimately show ?thesis
    using assms(1,2)
    by (simp add: buildHeaderSummary_def personalSummary_def bindE_def toMarkup_def
        case_prod_beta split: option.splits)
qed

lemma acmeDocument_reveals_once:
  "reveals (pageLoad (Response 200 (Some acmeDocument)) examplePage) = 1
   \<and> contentLoaded
       \<in> set (bodyClassList (pageLoad (Response 200 (Some acmeDocument)) examplePage))"
proof -
  have a: "frames examplePage = []" "reveals examplePage = 0"
    by (simp_all add: examplePage_def freshPage_def reveals_def)
  have a': "answersContainers examplePage"
    by (simp add: answersContainers_def containerSelectors_def answers_def page_simps)
  have b: "validateData acmeDocument = Inr ()"
    by (simp add: validateData_def required_def bindE_def acmeDocument_def lit_def)
  have c: "getProp acmeDocument (lit ''personal'')
           = Inr (JObj [(lit ''summary'', JStr (lit ''Hello''))])"
    by (simp add: acmeDocument_def lit_def)
  have d: "getProp (JObj [(lit ''summary'', JStr (lit ''Hello''))]) (lit ''summary'')
           = Inr (JStr (lit ''Hello''))"
    by simp
  have "\<forall>data. bindE (loadPortfolioData (Response 200 (Some acmeDocument)))
                  (\<lambda>data. bindE (validateData data) (\<lambda>_. Inr data)) = Inr data
               \<longrightarrow> (\<forall>w'. answersContainers w'
                          \<longrightarrow> fst (buildHeaderSummary data w') = Inr ())"
    using b buildHeaderSummary_text [OF c d] by (simp add: loadPortfolioData_def bindE_def)
  then show ?thesis
    using pageLoad_reveals_once [OF a(1) a'] a(2) by simp
qed

section \<open>The selector cache\<close>

text \<open>
  C10. No selector is ever cached with an absent node: the resolver keeps this
  invariant, and so does a whole page load, whose only writes to the cache are the
  resolver's. When the cache has no entry for a selector and the document has no node
  for it, the lookup gives the absence value and stores nothing, with or without
  caching, and the next lookup of that selector issues a DOM query again.
\<close>

theorem domCache_never_null:
  "(domCacheNonNull w \<longrightarrow> domCacheNonNull (snd (getElement sel useCache w)))
   \<and> (domCacheNonNull w \<longrightarrow> domCacheNonNull (pageLoad r w))
   \<and> (document w sel = Inr None \<and> domCache w sel = None \<longrightarrow>
        fst (getElement sel useCache w) = Inr None
        \<and> domCache (snd (getElement sel useCache w)) = domCache w
        \<and> (\<forall>u. trace (snd (getElement sel u (snd (getElement sel useCache w))))
               = trace (snd (getElement sel useCache w)) @ [Query sel]))"
proof (intro conjI impI)
  assume "domCacheNonNull w"
  then show "domCacheNonNull (snd (getElement sel useCache w))"
    by (auto simp: domCacheNonNull_def getElement_def emit_def Let_def split: sum.splits)
next
  assume "domCacheNonNull w"
  then show "domCacheNonNull (pageLoad r w)"
    by (rule pageLoad_keeps_caches)
next
  assume a: "document w sel = Inr None \<and> domCache w sel = None"
  then show "fst (getElement sel useCache w) = Inr None"
    by (simp add: getElement_def Let_def)
  show "domCache (snd (getElement sel useCache w)) = domCache w"
    using a by (simp add: getElement_def emit_def Let_def)
  show "\<forall>u. trace (snd (getElement sel u (snd (getElement sel useCache w))))
             = trace (snd (getElement sel useCache w)) @ [Query sel]"
    using a by (simp add: getElement_def emit_def Let_def)
qed

theorem domCache_never_null_witness:
  "domCacheNonNull examplePage
   \<and> domCacheNonNull (snd (getElement (lit ''.experience-list'') True examplePage))
   \<and> domCacheNonNull (pageLoad (Response 200 (Some acmeDocument)) examplePage)
   \<and> document examplePage (lit ''.missing'') = Inr None
   \<and> domCache examplePage (lit ''.missing'') = None
   \<and> domCache (snd (getElement (lit ''.missing'') True examplePage)) = domCache examplePage
   \<and> trace (snd (getElement (lit ''.missing'') True
               (snd (getElement (lit ''.missing'') True examplePage))))
       = [Query (lit ''.missing''), Query (lit ''.missing'')]"
proof -
  have a: "domCacheNonNull examplePage"
    by (simp add: domCacheNonNull_def examplePage_def freshPage_def)
  have b: "document examplePage (lit ''.missing'') = Inr None
           \<and> domCache examplePage (lit ''.missing'') = None"
    by (simp add: page_simps)
  have c: "trace (snd (getElement (lit ''.missing'') True examplePage))
           = [Query (lit ''.missing'')]"
    using b by (simp add: getElement_def page_simps)
  show ?thesis
    using a b c
      domCache_never_null [of examplePage "lit ''.experience-list''" True
        "Response 200 (Some acmeDocument)"]
      domCache_never_null [of examplePage "lit ''.missing''" True
        "Response 200 (Some acmeDocument)"]
    by simp
qed

text \<open>
  C8, as the code has it. A selector that resolved to a node with caching enabled
  resolves to the same node again, in any state that has the same cache, and the state
  is left as it was: no DOM query is issued. A valid selector the document has no node
  for, looked up without a cache entry or with caching disabled, gives the absence
  value and no error. A selector that has a cache entry is answered from the cache
  whatever the document holds by then, and a string \<open>querySelector\<close> rejects, looked up
  without a cache entry or with caching disabled, makes the resolver throw the
  SyntaxError of the query.
\<close>

theorem getElement_second_call:
  "(getElement sel True w = (Inr (Some n), w1) \<longrightarrow>
      (\<forall>w2::world. domCache w2 = domCache w1 \<longrightarrow>
         getElement sel True w2 = (Inr (Some n), w2)))
   \<and> (document w sel = Inr None \<and> (domCache w sel = None \<or> \<not> useCache) \<longrightarrow>
        fst (getElement sel useCache w) = Inr None)
   \<and> (domCache w sel = Some cached \<longrightarrow> getElement sel True w = (Inr cached, w))
   \<and> (document w sel = Inl err \<and> (domCache w sel = None \<or> \<not> useCache) \<longrightarrow>
        fst (getElement sel useCache w) = Inl err)"
proof (intro conjI impI allI)
  fix w2 :: world
  assume "getElement sel True w = (Inr (Some n), w1)" and "domCache w2 = domCache w1"
  then have "domCache w2 sel = Some (Some n)"
    by (simp add: getElement_cached)
  then show "getElement sel True w2 = (Inr (Some n), w2)"
    by (simp add: getElement_def)
next
  assume "document w sel = Inr None \<and> (domCache w sel = None \<or> \<not> useCache)"
  then show "fst (getElement sel useCache w) = Inr None"
    by (auto simp: getElement_def Let_def)
next
  assume "domCache w sel = Some cached"
  then show "getElement sel True w = (Inr cached, w)"
    by (simp add: getElement_def)
next
  assume "document w sel = Inl err \<and> (domCache w sel = None \<or> \<not> useCache)"
  then show "fst (getElement sel useCache w) = Inl err"
    by (auto simp: getElement_def Let_def)
qed

theorem getElement_second_call_witness:
  "fst (getElement (lit ''.experience-list'') True examplePage) = Inr (Some 2)
   \<and> getElement (lit ''.experience-list'') True
        (snd (getElement (lit ''.experience-list'') True examplePage))
     = (Inr (Some 2), snd (getElement (lit ''.experience-list'') True examplePage))
   \<and> document examplePage (lit ''.missing'') = Inr None
   \<and> domCache examplePage (lit ''.missing'') = None
   \<and> fst (getElement (lit ''.missing'') True examplePage) = Inr None
   \<and> document examplePage (lit ''div['') = Inl SyntaxError
   \<and> fst (getElement (lit ''div['') True examplePage) = Inl SyntaxError"
proof -
  define w1 where "w1 = snd (getElement (lit ''.experience-list'') True examplePage)"
  have a: "getElement (lit ''.experience-list'') True examplePage = (Inr (Some 2), w1)"
    unfolding w1_def by (simp add: getElement_def page_simps)
  have b: "document examplePage (lit ''.missing'') = Inr None
           \<and> (domCache examplePage (lit ''.missing'') = None \<or> \<not> True)"
    by (simp add: page_simps)
  have b': "document examplePage (lit ''div['') = Inl SyntaxError
           \<and> (domCache examplePage (lit ''div['') = None \<or> \<not> True)"
    by (simp add: page_simps)
  have c: "getElement (lit ''.experience-list'') True w1 = (Inr (Some 2), w1)"
    using a getElement_second_call [of "lit ''.experience-list''" examplePage 2 w1]
    by blast
  have d: "fst (getElement (lit ''.missing'') True examplePage) = Inr None"
    using b getElement_second_call [of "lit ''.missing''" examplePage 0 examplePage True]
    by blast
  have d': "fst (getElement (lit ''div['') True examplePage) = Inl SyntaxError"
    using b' getElement_second_call [of "lit ''div[''" examplePage 0 examplePage True]
    by blast
  have e: "fst (getElement (lit ''.experience-list'') True examplePage) = Inr (Some 2)"
    using a by simp
  have f: "domCache examplePage (lit ''.missing'') = None"
    by (simp add: page_simps)
  show ?thesis
    unfolding w1_def [symmetric] using b b' c d d' e f by simp
qed

text \<open>
  The selector \<open>.gone\<close> matches no node of \<open>stalePage\<close> and has a cache entry from the
  time it matched: the resolver returns the cached node 9, not the absence value. The
  string \<open>div[\<close> matches no node either: the resolver throws.
\<close>

theorem getElement_absence_counterexample:
  "document stalePage (lit ''.gone'') = Inr None
   \<and> fst (getElement (lit ''.gone'') True stalePage) = Inr (Some 9)
   \<and> fst (getElement (lit ''div['') True examplePage) = Inl SyntaxError"
  by (simp add: getElement_def stalePage_def page_simps)

end
